theory Spec2Isabelle
  imports Main
begin

section \<open>Python strings and numbers\<close>

text \<open>
  A Python \<open>str\<close> is the list of its code points, each a natural number, and a Python
  \<open>int\<close> is an \<^typ>\<open>int\<close>. The functions of the interpreter and of its library that the
  program calls are modelled as CPython 3.11 defines them; its character tables are those
  of Unicode 14.0.
\<close>

type_synonym str = "nat list"

text \<open>A string literal of the program, as the Python string with the same characters.\<close>

definition py :: "string \<Rightarrow> str" where
  "py s = map of_char s"

definition digit_char :: "nat \<Rightarrow> nat" where
  "digit_char d = 48 + d"

text \<open>The decimal digits of a natural number, most significant first.\<close>

fun str_nat :: "nat \<Rightarrow> str" where
  "str_nat n = (if n < 10 then [digit_char n] else str_nat (n div 10) @ [digit_char (n mod 10)])"

declare str_nat.simps [simp del]

text \<open>\<open>str(i)\<close> of a Python int, as the f-string \<open>f'{idx}'\<close> formats it.\<close>

definition str_int :: "int \<Rightarrow> str" where
  "str_int i = (if i < 0 then py ''-'' @ str_nat (nat (- i)) else str_nat (nat i))"

text \<open>Membership in a table of ranges of code points, both ends included.\<close>

definition in_ranges :: "(nat \<times> nat) list \<Rightarrow> nat \<Rightarrow> bool" where
  "in_ranges rs c = list_ex (\<lambda>(lo, hi). lo \<le> c \<and> c \<le> hi) rs"

text \<open>
  The code points that \<open>str.isprintable\<close> rejects: the categories \<open>Cc\<close>, \<open>Cf\<close>, \<open>Cs\<close>, \<open>Co\<close>,
  \<open>Cn\<close>, \<open>Zl\<close>, \<open>Zp\<close> and \<open>Zs\<close> of the character database, the ASCII space apart.
\<close>

definition nonprintable_ranges :: "(nat \<times> nat) list" where
  "nonprintable_ranges =
     [(0, 31), (127, 160), (173, 173), (888, 889), (896, 899), (907, 907),
      (909, 909), (930, 930), (1328, 1328), (1367, 1368), (1419, 1420), (1424, 1424),
      (1480, 1487), (1515, 1518), (1525, 1541), (1564, 1564), (1757, 1757), (1806, 1807),
      (1867, 1868), (1970, 1983), (2043, 2044), (2094, 2095), (2111, 2111), (2140, 2141),
      (2143, 2143), (2155, 2159), (2191, 2199), (2274, 2274), (2436, 2436), (2445, 2446),
      (2449, 2450), (2473, 2473), (2481, 2481), (2483, 2485), (2490, 2491), (2501, 2502),
      (2505, 2506), (2511, 2518), (2520, 2523), (2526, 2526), (2532, 2533), (2559, 2560),
      (2564, 2564), (2571, 2574), (2577, 2578), (2601, 2601), (2609, 2609), (2612, 2612),
      (2615, 2615), (2618, 2619), (2621, 2621), (2627, 2630), (2633, 2634), (2638, 2640),
      (2642, 2648), (2653, 2653), (2655, 2661), (2679, 2688), (2692, 2692), (2702, 2702),
      (2706, 2706), (2729, 2729), (2737, 2737), (2740, 2740), (2746, 2747), (2758, 2758),
      (2762, 2762), (2766, 2767), (2769, 2783), (2788, 2789), (2802, 2808), (2816, 2816),
      (2820, 2820), (2829, 2830), (2833, 2834), (2857, 2857), (2865, 2865), (2868, 2868),
      (2874, 2875), (2885, 2886), (2889, 2890), (2894, 2900), (2904, 2907), (2910, 2910),
      (2916, 2917), (2936, 2945), (2948, 2948), (2955, 2957), (2961, 2961), (2966, 2968),
      (2971, 2971), (2973, 2973), (2976, 2978), (2981, 2983), (2987, 2989), (3002, 3005),
      (3011, 3013), (3017, 3017), (3022, 3023), (3025, 3030), (3032, 3045), (3067, 3071),
      (3085, 3085), (3089, 3089), (3113, 3113), (3130, 3131), (3141, 3141), (3145, 3145),
      (3150, 3156), (3159, 3159), (3163, 3164), (3166, 3167), (3172, 3173), (3184, 3190),
      (3213, 3213), (3217, 3217), (3241, 3241), (3252, 3252), (3258, 3259), (3269, 3269),
      (3273, 3273), (3278, 3284), (3287, 3292), (3295, 3295), (3300, 3301), (3312, 3312),
      (3315, 3327), (3341, 3341), (3345, 3345), (3397, 3397), (3401, 3401), (3408, 3411),
      (3428, 3429), (3456, 3456), (3460, 3460), (3479, 3481), (3506, 3506), (3516, 3516),
      (3518, 3519), (3527, 3529), (3531, 3534), (3541, 3541), (3543, 3543), (3552, 3557),
      (3568, 3569), (3573, 3584), (3643, 3646), (3676, 3712), (3715, 3715), (3717, 3717),
      (3723, 3723), (3748, 3748), (3750, 3750), (3774, 3775), (3781, 3781), (3783, 3783),
      (3790, 3791), (3802, 3803), (3808, 3839), (3912, 3912), (3949, 3952), (3992, 3992),
      (4029, 4029), (4045, 4045), (4059, 4095), (4294, 4294), (4296, 4300), (4302, 4303),
      (4681, 4681), (4686, 4687), (4695, 4695), (4697, 4697), (4702, 4703), (4745, 4745),
      (4750, 4751), (4785, 4785), (4790, 4791), (4799, 4799), (4801, 4801), (4806, 4807),
      (4823, 4823), (4881, 4881), (4886, 4887), (4955, 4956), (4989, 4991), (5018, 5023),
      (5110, 5111), (5118, 5119), (5760, 5760), (5789, 5791), (5881, 5887), (5910, 5918),
      (5943, 5951), (5972, 5983), (5997, 5997), (6001, 6001), (6004, 6015), (6110, 6111),
      (6122, 6127), (6138, 6143), (6158, 6158), (6170, 6175), (6265, 6271), (6315, 6319),
      (6390, 6399), (6431, 6431), (6444, 6447), (6460, 6463), (6465, 6467), (6510, 6511),
      (6517, 6527), (6572, 6575), (6602, 6607), (6619, 6621), (6684, 6685), (6751, 6751),
      (6781, 6782), (6794, 6799), (6810, 6815), (6830, 6831), (6863, 6911), (6989, 6991),
      (7039, 7039), (7156, 7163), (7224, 7226), (7242, 7244), (7305, 7311), (7355, 7356),
      (7368, 7375), (7419, 7423), (7958, 7959), (7966, 7967), (8006, 8007), (8014, 8015),
      (8024, 8024), (8026, 8026), (8028, 8028), (8030, 8030), (8062, 8063), (8117, 8117),
      (8133, 8133), (8148, 8149), (8156, 8156), (8176, 8177), (8181, 8181), (8191, 8207),
      (8232, 8239), (8287, 8303), (8306, 8307), (8335, 8335), (8349, 8351), (8385, 8399),
      (8433, 8447), (8588, 8591), (9255, 9279), (9291, 9311), (11124, 11125), (11158, 11158),
      (11508, 11512), (11558, 11558), (11560, 11564), (11566, 11567), (11624, 11630), (11633, 11646),
      (11671, 11679), (11687, 11687), (11695, 11695), (11703, 11703), (11711, 11711), (11719, 11719),
      (11727, 11727), (11735, 11735), (11743, 11743), (11870, 11903), (11930, 11930), (12020, 12031),
      (12246, 12271), (12284, 12288), (12352, 12352), (12439, 12440), (12544, 12548), (12592, 12592),
      (12687, 12687), (12772, 12783), (12831, 12831), (42125, 42127), (42183, 42191), (42540, 42559),
      (42744, 42751), (42955, 42959), (42962, 42962), (42964, 42964), (42970, 42993), (43053, 43055),
      (43066, 43071), (43128, 43135), (43206, 43213), (43226, 43231), (43348, 43358), (43389, 43391),
      (43470, 43470), (43482, 43485), (43519, 43519), (43575, 43583), (43598, 43599), (43610, 43611),
      (43715, 43738), (43767, 43776), (43783, 43784), (43791, 43792), (43799, 43807), (43815, 43815),
      (43823, 43823), (43884, 43887), (44014, 44015), (44026, 44031), (55204, 55215), (55239, 55242),
      (55292, 63743), (64110, 64111), (64218, 64255), (64263, 64274), (64280, 64284), (64311, 64311),
      (64317, 64317), (64319, 64319), (64322, 64322), (64325, 64325), (64451, 64466), (64912, 64913),
      (64968, 64974), (64976, 65007), (65050, 65055), (65107, 65107), (65127, 65127), (65132, 65135),
      (65141, 65141), (65277, 65280), (65471, 65473), (65480, 65481), (65488, 65489), (65496, 65497),
      (65501, 65503), (65511, 65511), (65519, 65531), (65534, 65535), (65548, 65548), (65575, 65575),
      (65595, 65595), (65598, 65598), (65614, 65615), (65630, 65663), (65787, 65791), (65795, 65798),
      (65844, 65846), (65935, 65935), (65949, 65951), (65953, 65999), (66046, 66175), (66205, 66207),
      (66257, 66271), (66300, 66303), (66340, 66348), (66379, 66383), (66427, 66431), (66462, 66462),
      (66500, 66503), (66518, 66559), (66718, 66719), (66730, 66735), (66772, 66775), (66812, 66815),
      (66856, 66863), (66916, 66926), (66939, 66939), (66955, 66955), (66963, 66963), (66966, 66966),
      (66978, 66978), (66994, 66994), (67002, 67002), (67005, 67071), (67383, 67391), (67414, 67423),
      (67432, 67455), (67462, 67462), (67505, 67505), (67515, 67583), (67590, 67591), (67593, 67593),
      (67638, 67638), (67641, 67643), (67645, 67646), (67670, 67670), (67743, 67750), (67760, 67807),
      (67827, 67827), (67830, 67834), (67868, 67870), (67898, 67902), (67904, 67967), (68024, 68027),
      (68048, 68049), (68100, 68100), (68103, 68107), (68116, 68116), (68120, 68120), (68150, 68151),
      (68155, 68158), (68169, 68175), (68185, 68191), (68256, 68287), (68327, 68330), (68343, 68351),
      (68406, 68408), (68438, 68439), (68467, 68471), (68498, 68504), (68509, 68520), (68528, 68607),
      (68681, 68735), (68787, 68799), (68851, 68857), (68904, 68911), (68922, 69215), (69247, 69247),
      (69290, 69290), (69294, 69295), (69298, 69375), (69416, 69423), (69466, 69487), (69514, 69551),
      (69580, 69599), (69623, 69631), (69710, 69713), (69750, 69758), (69821, 69821), (69827, 69839),
      (69865, 69871), (69882, 69887), (69941, 69941), (69960, 69967), (70007, 70015), (70112, 70112),
      (70133, 70143), (70162, 70162), (70207, 70271), (70279, 70279), (70281, 70281), (70286, 70286),
      (70302, 70302), (70314, 70319), (70379, 70383), (70394, 70399), (70404, 70404), (70413, 70414),
      (70417, 70418), (70441, 70441), (70449, 70449), (70452, 70452), (70458, 70458), (70469, 70470),
      (70473, 70474), (70478, 70479), (70481, 70486), (70488, 70492), (70500, 70501), (70509, 70511),
      (70517, 70655), (70748, 70748), (70754, 70783), (70856, 70863), (70874, 71039), (71094, 71095),
      (71134, 71167), (71237, 71247), (71258, 71263), (71277, 71295), (71354, 71359), (71370, 71423),
      (71451, 71452), (71468, 71471), (71495, 71679), (71740, 71839), (71923, 71934), (71943, 71944),
      (71946, 71947), (71956, 71956), (71959, 71959), (71990, 71990), (71993, 71994), (72007, 72015),
      (72026, 72095), (72104, 72105), (72152, 72153), (72165, 72191), (72264, 72271), (72355, 72367),
      (72441, 72703), (72713, 72713), (72759, 72759), (72774, 72783), (72813, 72815), (72848, 72849),
      (72872, 72872), (72887, 72959), (72967, 72967), (72970, 72970), (73015, 73017), (73019, 73019),
      (73022, 73022), (73032, 73039), (73050, 73055), (73062, 73062), (73065, 73065), (73103, 73103),
      (73106, 73106), (73113, 73119), (73130, 73439), (73465, 73647), (73649, 73663), (73714, 73726),
      (74650, 74751), (74863, 74863), (74869, 74879), (75076, 77711), (77811, 77823), (78895, 82943),
      (83527, 92159), (92729, 92735), (92767, 92767), (92778, 92781), (92863, 92863), (92874, 92879),
      (92910, 92911), (92918, 92927), (92998, 93007), (93018, 93018), (93026, 93026), (93048, 93052),
      (93072, 93759), (93851, 93951), (94027, 94030), (94088, 94094), (94112, 94175), (94181, 94191),
      (94194, 94207), (100344, 100351), (101590, 101631), (101641, 110575), (110580, 110580), (110588, 110588),
      (110591, 110591), (110883, 110927), (110931, 110947), (110952, 110959), (111356, 113663), (113771, 113775),
      (113789, 113791), (113801, 113807), (113818, 113819), (113824, 118527), (118574, 118575), (118599, 118607),
      (118724, 118783), (119030, 119039), (119079, 119080), (119155, 119162), (119275, 119295), (119366, 119519),
      (119540, 119551), (119639, 119647), (119673, 119807), (119893, 119893), (119965, 119965), (119968, 119969),
      (119971, 119972), (119975, 119976), (119981, 119981), (119994, 119994), (119996, 119996), (120004, 120004),
      (120070, 120070), (120075, 120076), (120085, 120085), (120093, 120093), (120122, 120122), (120127, 120127),
      (120133, 120133), (120135, 120137), (120145, 120145), (120486, 120487), (120780, 120781), (121484, 121498),
      (121504, 121504), (121520, 122623), (122655, 122879), (122887, 122887), (122905, 122906), (122914, 122914),
      (122917, 122917), (122923, 123135), (123181, 123183), (123198, 123199), (123210, 123213), (123216, 123535),
      (123567, 123583), (123642, 123646), (123648, 124895), (124903, 124903), (124908, 124908), (124911, 124911),
      (124927, 124927), (125125, 125126), (125143, 125183), (125260, 125263), (125274, 125277), (125280, 126064),
      (126133, 126208), (126270, 126463), (126468, 126468), (126496, 126496), (126499, 126499), (126501, 126502),
      (126504, 126504), (126515, 126515), (126520, 126520), (126522, 126522), (126524, 126529), (126531, 126534),
      (126536, 126536), (126538, 126538), (126540, 126540), (126544, 126544), (126547, 126547), (126549, 126550),
      (126552, 126552), (126554, 126554), (126556, 126556), (126558, 126558), (126560, 126560), (126563, 126563),
      (126565, 126566), (126571, 126571), (126579, 126579), (126584, 126584), (126589, 126589), (126591, 126591),
      (126602, 126602), (126620, 126624), (126628, 126628), (126634, 126634), (126652, 126703), (126706, 126975),
      (127020, 127023), (127124, 127135), (127151, 127152), (127168, 127168), (127184, 127184), (127222, 127231),
      (127406, 127461), (127491, 127503), (127548, 127551), (127561, 127567), (127570, 127583), (127590, 127743),
      (128728, 128732), (128749, 128751), (128765, 128767), (128884, 128895), (128985, 128991), (129004, 129007),
      (129009, 129023), (129036, 129039), (129096, 129103), (129114, 129119), (129160, 129167), (129198, 129199),
      (129202, 129279), (129620, 129631), (129646, 129647), (129653, 129655), (129661, 129663), (129671, 129679),
      (129709, 129711), (129723, 129727), (129734, 129743), (129754, 129759), (129768, 129775), (129783, 129791),
      (129939, 129939), (129995, 130031), (130042, 131071), (173792, 173823), (177977, 177983), (178206, 178207),
      (183970, 183983), (191457, 194559), (195102, 196607), (201547, 917759), (918000, 1114111)]"

definition isprintable :: "nat \<Rightarrow> bool" where
  "isprintable ch = (\<not> in_ranges nonprintable_ranges ch)"

text \<open>One of \<open>0123456789abcdef\<close>.\<close>

definition hexdigit :: "nat \<Rightarrow> nat" where
  "hexdigit d = (if d < 10 then 48 + d else 87 + d)"

text \<open>
  \<open>repr\<close> of a Python \<open>str\<close> (CPython's \<open>unicode_repr\<close>). The quote is the single quote,
  unless the string holds a single quote and no double quote. The quote and the backslash
  are escaped by a backslash; tab, newline and carriage return are written \<open>\t\<close>, \<open>\n\<close>,
  \<open>\r\<close>; the other ASCII controls are written \<open>\xhh\<close> and the other ASCII characters are
  copied; a character beyond ASCII is copied when it is printable, and written \<open>\xhh\<close>,
  \<open>\uhhhh\<close> or \<open>\Uhhhhhhhh\<close>, by its size, when it is not.
\<close>

definition repr_quote :: "str \<Rightarrow> nat" where
  "repr_quote s = (if 39 \<in> set s \<and> 34 \<notin> set s then 34 else 39)"

definition repr_char :: "nat \<Rightarrow> nat \<Rightarrow> str" where
  "repr_char quote ch =
     (if ch = quote \<or> ch = 92 then [92, ch]
      else if ch = 9 then [92, 116]
      else if ch = 10 then [92, 110]
      else if ch = 13 then [92, 114]
      else if ch < 32 \<or> ch = 127 then
        [92, 120] @ [hexdigit (ch div 16 mod 16), hexdigit (ch mod 16)]
      else if ch < 127 then [ch]
      else if \<not> isprintable ch then
        (if ch \<le> 255 then
           [92, 120] @ [hexdigit (ch div 16 mod 16), hexdigit (ch mod 16)]
         else if ch \<le> 65535 then
           [92, 117] @ [hexdigit (ch div 4096 mod 16), hexdigit (ch div 256 mod 16),
             hexdigit (ch div 16 mod 16), hexdigit (ch mod 16)]
         else
           [92, 85] @ [hexdigit (ch div 268435456 mod 16), hexdigit (ch div 16777216 mod 16),
             hexdigit (ch div 1048576 mod 16), hexdigit (ch div 65536 mod 16),
             hexdigit (ch div 4096 mod 16), hexdigit (ch div 256 mod 16),
             hexdigit (ch div 16 mod 16), hexdigit (ch mod 16)])
      else [ch])"

definition repr :: "str \<Rightarrow> str" where
  "repr s = (let quote = repr_quote s in
     [quote] @ concat (map (repr_char quote) s) @ [quote])"

text \<open>\<open>sep.join(xs)\<close>.\<close>

fun join :: "str \<Rightarrow> str list \<Rightarrow> str" where
  "join sep [] = []"
| "join sep [x] = x"
| "join sep (x # y # ys) = x @ sep @ join sep (y # ys)"

text \<open>\<open>str(xs)\<close> of a Python list of strings: the \<open>repr\<close> of each element, separated by
  a comma and a space, inside square brackets.\<close>

definition str_list :: "str list \<Rightarrow> str" where
  "str_list xs = py ''['' @ join (py '', '') (map repr xs) @ py '']''"

text \<open>
  \<open>str.lower\<close>. An ASCII capital moves up by 32 and any other ASCII character stays. A
  character beyond ASCII is replaced by its lower-case mapping in the character database:
  the table lists ranges \<open>(lo, hi, step, t)\<close>, in which every \<open>step\<close>-th code point from \<open>lo\<close>
  to \<open>hi\<close> maps to \<open>t\<close> plus its distance from \<open>lo\<close>; the capital I with a dot above alone maps
  to two characters. The capital sigma becomes the final small sigma when a cased letter
  stands before it and none after it, case-ignorable characters being skipped on both
  sides, and the small sigma otherwise.
\<close>

definition lower_ranges :: "(nat \<times> nat \<times> nat \<times> nat) list" where
  "lower_ranges =
     [(192, 214, 1, 224), (216, 222, 1, 248), (256, 302, 2, 257), (306, 310, 2, 307),
      (313, 327, 2, 314), (330, 374, 2, 331), (376, 376, 1, 255), (377, 381, 2, 378),
      (385, 385, 1, 595), (386, 388, 2, 387), (390, 390, 1, 596), (391, 391, 1, 392),
      (393, 394, 1, 598), (395, 395, 1, 396), (398, 398, 1, 477), (399, 399, 1, 601),
      (400, 400, 1, 603), (401, 401, 1, 402), (403, 403, 1, 608), (404, 404, 1, 611),
      (406, 406, 1, 617), (407, 407, 1, 616), (408, 408, 1, 409), (412, 412, 1, 623),
      (413, 413, 1, 626), (415, 415, 1, 629), (416, 420, 2, 417), (422, 422, 1, 640),
      (423, 423, 1, 424), (425, 425, 1, 643), (428, 428, 1, 429), (430, 430, 1, 648),
      (431, 431, 1, 432), (433, 434, 1, 650), (435, 437, 2, 436), (439, 439, 1, 658),
      (440, 440, 1, 441), (444, 444, 1, 445), (452, 452, 1, 454), (453, 453, 1, 454),
      (455, 455, 1, 457), (456, 456, 1, 457), (458, 458, 1, 460), (459, 475, 2, 460),
      (478, 494, 2, 479), (497, 497, 1, 499), (498, 500, 2, 499), (502, 502, 1, 405),
      (503, 503, 1, 447), (504, 542, 2, 505), (544, 544, 1, 414), (546, 562, 2, 547),
      (570, 570, 1, 11365), (571, 571, 1, 572), (573, 573, 1, 410), (574, 574, 1, 11366),
      (577, 577, 1, 578), (579, 579, 1, 384), (580, 580, 1, 649), (581, 581, 1, 652),
      (582, 590, 2, 583), (880, 882, 2, 881), (886, 886, 1, 887), (895, 895, 1, 1011),
      (902, 902, 1, 940), (904, 906, 1, 941), (908, 908, 1, 972), (910, 911, 1, 973),
      (913, 929, 1, 945), (931, 939, 1, 963), (975, 975, 1, 983), (984, 1006, 2, 985),
      (1012, 1012, 1, 952), (1015, 1015, 1, 1016), (1017, 1017, 1, 1010), (1018, 1018, 1, 1019),
      (1021, 1023, 1, 891), (1024, 1039, 1, 1104), (1040, 1071, 1, 1072), (1120, 1152, 2, 1121),
      (1162, 1214, 2, 1163), (1216, 1216, 1, 1231), (1217, 1229, 2, 1218), (1232, 1326, 2, 1233),
      (1329, 1366, 1, 1377), (4256, 4293, 1, 11520), (4295, 4295, 1, 11559), (4301, 4301, 1, 11565),
      (5024, 5103, 1, 43888), (5104, 5109, 1, 5112), (7312, 7354, 1, 4304), (7357, 7359, 1, 4349),
      (7680, 7828, 2, 7681), (7838, 7838, 1, 223), (7840, 7934, 2, 7841), (7944, 7951, 1, 7936),
      (7960, 7965, 1, 7952), (7976, 7983, 1, 7968), (7992, 7999, 1, 7984), (8008, 8013, 1, 8000),
      (8025, 8031, 2, 8017), (8040, 8047, 1, 8032), (8072, 8079, 1, 8064), (8088, 8095, 1, 8080),
      (8104, 8111, 1, 8096), (8120, 8121, 1, 8112), (8122, 8123, 1, 8048), (8124, 8124, 1, 8115),
      (8136, 8139, 1, 8050), (8140, 8140, 1, 8131), (8152, 8153, 1, 8144), (8154, 8155, 1, 8054),
      (8168, 8169, 1, 8160), (8170, 8171, 1, 8058), (8172, 8172, 1, 8165), (8184, 8185, 1, 8056),
      (8186, 8187, 1, 8060), (8188, 8188, 1, 8179), (8486, 8486, 1, 969), (8490, 8490, 1, 107),
      (8491, 8491, 1, 229), (8498, 8498, 1, 8526), (8544, 8559, 1, 8560), (8579, 8579, 1, 8580),
      (9398, 9423, 1, 9424), (11264, 11311, 1, 11312), (11360, 11360, 1, 11361), (11362, 11362, 1, 619),
      (11363, 11363, 1, 7549), (11364, 11364, 1, 637), (11367, 11371, 2, 11368), (11373, 11373, 1, 593),
      (11374, 11374, 1, 625), (11375, 11375, 1, 592), (11376, 11376, 1, 594), (11378, 11378, 1, 11379),
      (11381, 11381, 1, 11382), (11390, 11391, 1, 575), (11392, 11490, 2, 11393), (11499, 11501, 2, 11500),
      (11506, 11506, 1, 11507), (42560, 42604, 2, 42561), (42624, 42650, 2, 42625), (42786, 42798, 2, 42787),
      (42802, 42862, 2, 42803), (42873, 42875, 2, 42874), (42877, 42877, 1, 7545), (42878, 42886, 2, 42879),
      (42891, 42891, 1, 42892), (42893, 42893, 1, 613), (42896, 42898, 2, 42897), (42902, 42920, 2, 42903),
      (42922, 42922, 1, 614), (42923, 42923, 1, 604), (42924, 42924, 1, 609), (42925, 42925, 1, 620),
      (42926, 42926, 1, 618), (42928, 42928, 1, 670), (42929, 42929, 1, 647), (42930, 42930, 1, 669),
      (42931, 42931, 1, 43859), (42932, 42946, 2, 42933), (42948, 42948, 1, 42900), (42949, 42949, 1, 642),
      (42950, 42950, 1, 7566), (42951, 42953, 2, 42952), (42960, 42960, 1, 42961), (42966, 42968, 2, 42967),
      (42997, 42997, 1, 42998), (65313, 65338, 1, 65345), (66560, 66599, 1, 66600), (66736, 66771, 1, 66776),
      (66928, 66938, 1, 66967), (66940, 66954, 1, 66979), (66956, 66962, 1, 66995), (66964, 66965, 1, 67003),
      (68736, 68786, 1, 68800), (71840, 71871, 1, 71872), (93760, 93791, 1, 93792), (125184, 125217, 1, 125218)]"

fun lower_lookup :: "(nat \<times> nat \<times> nat \<times> nat) list \<Rightarrow> nat \<Rightarrow> nat option" where
  "lower_lookup [] c = None"
| "lower_lookup ((lo, hi, step, t) # rs) c =
     (if lo \<le> c \<and> c \<le> hi \<and> (c - lo) mod step = 0 then Some (t + (c - lo))
      else lower_lookup rs c)"

definition to_lower :: "nat \<Rightarrow> str" where
  "to_lower c =
     (if c < 128 then (if 65 \<le> c \<and> c \<le> 90 then [c + 32] else [c])
      else if c = 304 then [105, 775]
      else (case lower_lookup lower_ranges c of Some t \<Rightarrow> [t] | None \<Rightarrow> [c]))"

definition case_ignorable_ranges :: "(nat \<times> nat) list" where
  "case_ignorable_ranges =
     [(39, 39), (46, 46), (58, 58), (94, 94), (96, 96), (168, 168),
      (173, 173), (175, 175), (180, 180), (183, 184), (688, 879), (884, 885),
      (890, 890), (900, 901), (903, 903), (1155, 1161), (1369, 1369), (1375, 1375),
      (1425, 1469), (1471, 1471), (1473, 1474), (1476, 1477), (1479, 1479), (1524, 1524),
      (1536, 1541), (1552, 1562), (1564, 1564), (1600, 1600), (1611, 1631), (1648, 1648),
      (1750, 1757), (1759, 1768), (1770, 1773), (1807, 1807), (1809, 1809), (1840, 1866),
      (1958, 1968), (2027, 2037), (2042, 2042), (2045, 2045), (2070, 2093), (2137, 2139),
      (2184, 2184), (2192, 2193), (2200, 2207), (2249, 2306), (2362, 2362), (2364, 2364),
      (2369, 2376), (2381, 2381), (2385, 2391), (2402, 2403), (2417, 2417), (2433, 2433),
      (2492, 2492), (2497, 2500), (2509, 2509), (2530, 2531), (2558, 2558), (2561, 2562),
      (2620, 2620), (2625, 2626), (2631, 2632), (2635, 2637), (2641, 2641), (2672, 2673),
      (2677, 2677), (2689, 2690), (2748, 2748), (2753, 2757), (2759, 2760), (2765, 2765),
      (2786, 2787), (2810, 2815), (2817, 2817), (2876, 2876), (2879, 2879), (2881, 2884),
      (2893, 2893), (2901, 2902), (2914, 2915), (2946, 2946), (3008, 3008), (3021, 3021),
      (3072, 3072), (3076, 3076), (3132, 3132), (3134, 3136), (3142, 3144), (3146, 3149),
      (3157, 3158), (3170, 3171), (3201, 3201), (3260, 3260), (3263, 3263), (3270, 3270),
      (3276, 3277), (3298, 3299), (3328, 3329), (3387, 3388), (3393, 3396), (3405, 3405),
      (3426, 3427), (3457, 3457), (3530, 3530), (3538, 3540), (3542, 3542), (3633, 3633),
      (3636, 3642), (3654, 3662), (3761, 3761), (3764, 3772), (3782, 3782), (3784, 3789),
      (3864, 3865), (3893, 3893), (3895, 3895), (3897, 3897), (3953, 3966), (3968, 3972),
      (3974, 3975), (3981, 3991), (3993, 4028), (4038, 4038), (4141, 4144), (4146, 4151),
      (4153, 4154), (4157, 4158), (4184, 4185), (4190, 4192), (4209, 4212), (4226, 4226),
      (4229, 4230), (4237, 4237), (4253, 4253), (4348, 4348), (4957, 4959), (5906, 5908),
      (5938, 5939), (5970, 5971), (6002, 6003), (6068, 6069), (6071, 6077), (6086, 6086),
      (6089, 6099), (6103, 6103), (6109, 6109), (6155, 6159), (6211, 6211), (6277, 6278),
      (6313, 6313), (6432, 6434), (6439, 6440), (6450, 6450), (6457, 6459), (6679, 6680),
      (6683, 6683), (6742, 6742), (6744, 6750), (6752, 6752), (6754, 6754), (6757, 6764),
      (6771, 6780), (6783, 6783), (6823, 6823), (6832, 6862), (6912, 6915), (6964, 6964),
      (6966, 6970), (6972, 6972), (6978, 6978), (7019, 7027), (7040, 7041), (7074, 7077),
      (7080, 7081), (7083, 7085), (7142, 7142), (7144, 7145), (7149, 7149), (7151, 7153),
      (7212, 7219), (7222, 7223), (7288, 7293), (7376, 7378), (7380, 7392), (7394, 7400),
      (7405, 7405), (7412, 7412), (7416, 7417), (7468, 7530), (7544, 7544), (7579, 7679),
      (8125, 8125), (8127, 8129), (8141, 8143), (8157, 8159), (8173, 8175), (8189, 8190),
      (8203, 8207), (8216, 8217), (8228, 8228), (8231, 8231), (8234, 8238), (8288, 8292),
      (8294, 8303), (8305, 8305), (8319, 8319), (8336, 8348), (8400, 8432), (11388, 11389),
      (11503, 11505), (11631, 11631), (11647, 11647), (11744, 11775), (11823, 11823), (12293, 12293),
      (12330, 12333), (12337, 12341), (12347, 12347), (12441, 12446), (12540, 12542), (40981, 40981),
      (42232, 42237), (42508, 42508), (42607, 42610), (42612, 42621), (42623, 42623), (42652, 42655),
      (42736, 42737), (42752, 42785), (42864, 42864), (42888, 42890), (42994, 42996), (43000, 43001),
      (43010, 43010), (43014, 43014), (43019, 43019), (43045, 43046), (43052, 43052), (43204, 43205),
      (43232, 43249), (43263, 43263), (43302, 43309), (43335, 43345), (43392, 43394), (43443, 43443),
      (43446, 43449), (43452, 43453), (43471, 43471), (43493, 43494), (43561, 43566), (43569, 43570),
      (43573, 43574), (43587, 43587), (43596, 43596), (43632, 43632), (43644, 43644), (43696, 43696),
      (43698, 43700), (43703, 43704), (43710, 43711), (43713, 43713), (43741, 43741), (43756, 43757),
      (43763, 43764), (43766, 43766), (43867, 43871), (43881, 43883), (44005, 44005), (44008, 44008),
      (44013, 44013), (64286, 64286), (64434, 64450), (65024, 65039), (65043, 65043), (65056, 65071),
      (65106, 65106), (65109, 65109), (65279, 65279), (65287, 65287), (65294, 65294), (65306, 65306),
      (65342, 65342), (65344, 65344), (65392, 65392), (65438, 65439), (65507, 65507), (65529, 65531),
      (66045, 66045), (66272, 66272), (66422, 66426), (67456, 67461), (67463, 67504), (67506, 67514),
      (68097, 68099), (68101, 68102), (68108, 68111), (68152, 68154), (68159, 68159), (68325, 68326),
      (68900, 68903), (69291, 69292), (69446, 69456), (69506, 69509), (69633, 69633), (69688, 69702),
      (69744, 69744), (69747, 69748), (69759, 69761), (69811, 69814), (69817, 69818), (69821, 69821),
      (69826, 69826), (69837, 69837), (69888, 69890), (69927, 69931), (69933, 69940), (70003, 70003),
      (70016, 70017), (70070, 70078), (70089, 70092), (70095, 70095), (70191, 70193), (70196, 70196),
      (70198, 70199), (70206, 70206), (70367, 70367), (70371, 70378), (70400, 70401), (70459, 70460),
      (70464, 70464), (70502, 70508), (70512, 70516), (70712, 70719), (70722, 70724), (70726, 70726),
      (70750, 70750), (70835, 70840), (70842, 70842), (70847, 70848), (70850, 70851), (71090, 71093),
      (71100, 71101), (71103, 71104), (71132, 71133), (71219, 71226), (71229, 71229), (71231, 71232),
      (71339, 71339), (71341, 71341), (71344, 71349), (71351, 71351), (71453, 71455), (71458, 71461),
      (71463, 71467), (71727, 71735), (71737, 71738), (71995, 71996), (71998, 71998), (72003, 72003),
      (72148, 72151), (72154, 72155), (72160, 72160), (72193, 72202), (72243, 72248), (72251, 72254),
      (72263, 72263), (72273, 72278), (72281, 72283), (72330, 72342), (72344, 72345), (72752, 72758),
      (72760, 72765), (72767, 72767), (72850, 72871), (72874, 72880), (72882, 72883), (72885, 72886),
      (73009, 73014), (73018, 73018), (73020, 73021), (73023, 73029), (73031, 73031), (73104, 73105),
      (73109, 73109), (73111, 73111), (73459, 73460), (78896, 78904), (92912, 92916), (92976, 92982),
      (92992, 92995), (94031, 94031), (94095, 94111), (94176, 94177), (94179, 94180), (110576, 110579),
      (110581, 110587), (110589, 110590), (113821, 113822), (113824, 113827), (118528, 118573), (118576, 118598),
      (119143, 119145), (119155, 119170), (119173, 119179), (119210, 119213), (119362, 119364), (121344, 121398),
      (121403, 121452), (121461, 121461), (121476, 121476), (121499, 121503), (121505, 121519), (122880, 122886),
      (122888, 122904), (122907, 122913), (122915, 122916), (122918, 122922), (123184, 123197), (123566, 123566),
      (123628, 123631), (125136, 125142), (125252, 125259), (127995, 127999), (917505, 917505), (917536, 917631),
      (917760, 917999)]"

definition cased_ranges :: "(nat \<times> nat) list" where
  "cased_ranges =
     [(65, 90), (97, 122), (170, 170), (181, 181), (186, 186), (192, 214),
      (216, 246), (248, 442), (444, 447), (452, 659), (661, 696), (704, 705),
      (736, 740), (837, 837), (880, 883), (886, 887), (890, 893), (895, 895),
      (902, 902), (904, 906), (908, 908), (910, 929), (931, 1013), (1015, 1153),
      (1162, 1327), (1329, 1366), (1376, 1416), (4256, 4293), (4295, 4295), (4301, 4301),
      (4304, 4346), (4349, 4351), (5024, 5109), (5112, 5117), (7296, 7304), (7312, 7354),
      (7357, 7359), (7424, 7615), (7680, 7957), (7960, 7965), (7968, 8005), (8008, 8013),
      (8016, 8023), (8025, 8025), (8027, 8027), (8029, 8029), (8031, 8061), (8064, 8116),
      (8118, 8124), (8126, 8126), (8130, 8132), (8134, 8140), (8144, 8147), (8150, 8155),
      (8160, 8172), (8178, 8180), (8182, 8188), (8305, 8305), (8319, 8319), (8336, 8348),
      (8450, 8450), (8455, 8455), (8458, 8467), (8469, 8469), (8473, 8477), (8484, 8484),
      (8486, 8486), (8488, 8488), (8490, 8493), (8495, 8500), (8505, 8505), (8508, 8511),
      (8517, 8521), (8526, 8526), (8544, 8575), (8579, 8580), (9398, 9449), (11264, 11492),
      (11499, 11502), (11506, 11507), (11520, 11557), (11559, 11559), (11565, 11565), (42560, 42605),
      (42624, 42653), (42786, 42887), (42891, 42894), (42896, 42954), (42960, 42961), (42963, 42963),
      (42965, 42969), (42997, 42998), (43000, 43002), (43824, 43866), (43868, 43880), (43888, 43967),
      (64256, 64262), (64275, 64279), (65313, 65338), (65345, 65370), (66560, 66639), (66736, 66771),
      (66776, 66811), (66928, 66938), (66940, 66954), (66956, 66962), (66964, 66965), (66967, 66977),
      (66979, 66993), (66995, 67001), (67003, 67004), (67456, 67456), (67459, 67461), (67463, 67504),
      (67506, 67514), (68736, 68786), (68800, 68850), (71840, 71903), (93760, 93823), (119808, 119892),
      (119894, 119964), (119966, 119967), (119970, 119970), (119973, 119974), (119977, 119980), (119982, 119993),
      (119995, 119995), (119997, 120003), (120005, 120069), (120071, 120074), (120077, 120084), (120086, 120092),
      (120094, 120121), (120123, 120126), (120128, 120132), (120134, 120134), (120138, 120144), (120146, 120485),
      (120488, 120512), (120514, 120538), (120540, 120570), (120572, 120596), (120598, 120628), (120630, 120654),
      (120656, 120686), (120688, 120712), (120714, 120744), (120746, 120770), (120772, 120779), (122624, 122633),
      (122635, 122654), (125184, 125251), (127280, 127305), (127312, 127337), (127344, 127369)]"

text \<open>Whether the first character that is not case-ignorable is a cased letter.\<close>

fun cased_next :: "str \<Rightarrow> bool" where
  "cased_next [] = False"
| "cased_next (c # cs) =
     (if in_ranges case_ignorable_ranges c then cased_next cs else in_ranges cased_ranges c)"

text \<open>The lower-casing of a string from a position on: \<open>before\<close> holds the characters
  before the position, the nearest first.\<close>

fun lower_from :: "str \<Rightarrow> str \<Rightarrow> str" where
  "lower_from before [] = []"
| "lower_from before (c # cs) =
     (if c = 931 then [if cased_next before \<and> \<not> cased_next cs then 962 else 963]
      else to_lower c) @ lower_from (c # before) cs"

definition lower :: "str \<Rightarrow> str" where
  "lower s = lower_from [] s"

section \<open>The parsed document\<close>

text \<open>
  A node of the tree that the HTML parser returns. A \<open>Tag\<close> has its tag name, the text
  \<open>get_text()\<close> extracts from it, its serialised form \<open>str(el)\<close> and its children; a
  \<open>NavigableString\<close> (text, comment, doctype) has no tag name and is its own text. The
  serialised form and the extracted text are the parser library's, so they are data here.
\<close>

datatype element =
    Tag str str str "element list"
  | NavigableString str

text \<open>\<open>el.name\<close>: \<open>None\<close> for a string node.\<close>

fun name :: "element \<Rightarrow> str option" where
  "name (Tag n t s cs) = Some n"
| "name (NavigableString s) = None"

fun get_text :: "element \<Rightarrow> str" where
  "get_text (Tag n t s cs) = t"
| "get_text (NavigableString s) = s"

fun str :: "element \<Rightarrow> str" where
  "str (Tag n t s cs) = s"
| "str (NavigableString s) = s"

fun children :: "element \<Rightarrow> element list" where
  "children (Tag n t s cs) = cs"
| "children (NavigableString s) = []"

text \<open>All nodes below a node, in document order.\<close>

fun descendants :: "element \<Rightarrow> element list" where
  "descendants (Tag n t s cs) = concat (map (\<lambda>c. c # descendants c) cs)"
| "descendants (NavigableString s) = []"

text \<open>\<open>soup.find(nm)\<close>: the first tag of that name below the node, or \<open>None\<close>.\<close>

definition find_tag :: "str \<Rightarrow> element \<Rightarrow> element option" where
  "find_tag nm soup = List.find (\<lambda>el. name el = Some nm) (descendants soup)"

text \<open>\<open>soup.body\<close> is \<open>soup.find('body')\<close>.\<close>

definition body :: "element \<Rightarrow> element option" where
  "body soup = find_tag (py ''body'') soup"

text \<open>
  The truth value of \<open>article\<close> in \<open>if not article\<close>: \<open>None\<close> is false, and a tag is true
  whatever it contains (the library's \<open>Tag.__bool__\<close> returns \<open>True\<close>).
\<close>

fun truthy :: "element option \<Rightarrow> bool" where
  "truthy None = False"
| "truthy (Some el) = True"

text \<open>The truth value of \<open>el.name\<close>: a name that is not \<open>None\<close> and not empty.\<close>

definition has_name :: "element \<Rightarrow> bool" where
  "has_name el = (case name el of None \<Rightarrow> False | Some n \<Rightarrow> n \<noteq> [])"

text \<open>\<open>el.name and el.name in ['h1', 'h2']\<close>.\<close>

definition is_heading :: "element \<Rightarrow> bool" where
  "is_heading el = (case name el of None \<Rightarrow> False
     | Some n \<Rightarrow> n \<noteq> [] \<and> n \<in> set [py ''h1'', py ''h2''])"

section \<open>The book\<close>

record EpubHtml =
  title :: str
  file_name :: str
  lang :: str
  content :: str

datatype item =
    Html EpubHtml
  | EpubNcx
  | EpubNav
  | EpubItem str str str str

record EpubBook =
  book_identifier :: str
  book_title :: str
  language :: str
  authors :: "str list"
  items :: "item list"
  toc :: "EpubHtml list"

text \<open>\<open>book.add_item(it)\<close> appends the item to the book's items (the library also gives
  the item an id, which nothing here reads).\<close>

definition add_item :: "item \<Rightarrow> EpubBook \<Rightarrow> EpubBook" where
  "add_item it book = book\<lparr>items := items book @ [it]\<rparr>"

definition make_chapter :: "str \<Rightarrow> str list \<Rightarrow> int \<Rightarrow> EpubHtml" where
  "make_chapter ttl html_content idx =
     \<lparr>title = ttl, file_name = (py ''chap_'') @ str_int idx @ (py ''.xhtml''), lang = py ''en'',
      content = str_list html_content\<rparr>"

section \<open>Splitting into chapters\<close>

text \<open>The variables of \<open>main\<close> that the loop over the children reads and writes.\<close>

record loop_vars =
  book :: EpubBook
  chapters :: "EpubHtml list"
  chapter_count :: int
  current_chapter :: "str list"
  current_title :: str

text \<open>
  Making the chapter of the buffered nodes, appending it to \<open>chapters\<close> and adding it to
  the book: the three statements shared by the flush at a heading and the last flush.
\<close>

definition emit_chapter :: "loop_vars \<Rightarrow> loop_vars" where
  "emit_chapter v =
     (let chap = make_chapter (current_title v) (current_chapter v) (chapter_count v)
      in v\<lparr>chapters := chapters v @ [chap], book := add_item (Html chap) (book v)\<rparr>)"

text \<open>The body of \<open>for el in article.children\<close>.\<close>

definition loop_body :: "element \<Rightarrow> loop_vars \<Rightarrow> loop_vars" where
  "loop_body el v =
     (let v1 =
        (if is_heading el then
           (let v2 =
              (if current_chapter v \<noteq> [] then
                 (emit_chapter v)\<lparr>chapter_count := chapter_count v + 1, current_chapter := []\<rparr>
               else v)
            in v2\<lparr>current_title := get_text el\<rparr>)
         else v)
      in if has_name el then v1\<lparr>current_chapter := current_chapter v1 @ [str el]\<rparr> else v1)"

fun for_children :: "element list \<Rightarrow> loop_vars \<Rightarrow> loop_vars" where
  "for_children [] v = v"
| "for_children (el # els) v = for_children els (loop_body el v)"

definition init_vars :: "EpubBook \<Rightarrow> loop_vars" where
  "init_vars b =
     \<lparr>book = b, chapters = [], chapter_count = 1, current_chapter = [],
      current_title = py ''Introduction''\<rparr>"

text \<open>The last flush, after the loop.\<close>

definition add_last_chapter :: "loop_vars \<Rightarrow> loop_vars" where
  "add_last_chapter v = (if current_chapter v \<noteq> [] then emit_chapter v else v)"

text \<open>The loop and the last flush on the children of the traversal root.\<close>

definition split :: "EpubBook \<Rightarrow> element list \<Rightarrow> loop_vars" where
  "split b els = add_last_chapter (for_children els (init_vars b))"

text \<open>
  The calls of \<open>make_chapter\<close> that the loop and the last flush make, as the list of their
  arguments (title, buffered nodes, ordinal), from a title, a buffer and an ordinal on.
\<close>

fun make_chapter_calls ::
  "element list \<Rightarrow> str \<Rightarrow> str list \<Rightarrow> int \<Rightarrow> (str \<times> str list \<times> int) list" where
  "make_chapter_calls [] ttl buf n = (if buf \<noteq> [] then [(ttl, buf, n)] else [])"
| "make_chapter_calls (el # els) ttl buf n =
     (if is_heading el then
        (if buf \<noteq> [] then
           (ttl, buf, n) # make_chapter_calls els (get_text el) ([] @ [str el]) (n + 1)
         else make_chapter_calls els (get_text el) (buf @ [str el]) n)
      else if has_name el then make_chapter_calls els ttl (buf @ [str el]) n
      else make_chapter_calls els ttl buf n)"

definition chapter_of_call :: "str \<times> str list \<times> int \<Rightarrow> EpubHtml" where
  "chapter_of_call c = (case c of (ttl, buf, n) \<Rightarrow> make_chapter ttl buf n)"

section \<open>The conversion\<close>

text \<open>
  The exceptions with which a run can end. \<open>OSError\<close> carries the error number of the
  operating system and stands for the subclass that Python raises for that number as well
  (\<open>PermissionError\<close> for \<open>EACCES\<close>); \<open>FileNotFoundError\<close> is the one that the validation
  raises itself, with its message.
\<close>

datatype error =
    FileNotFoundError str
  | ValueError str
  | AttributeError str
  | KeyError str
  | OSError nat
  | SystemExit int

text \<open>The four constants read from the environment when the module is loaded.\<close>

record config =
  BOOK_AUTHOR :: str
  BOOK_IDENTIFIER :: str
  BOOK_LANGUAGE :: str
  BOOK_TITLE :: str

text \<open>\<open>os.environ[key]\<close>: a missing key raises \<open>KeyError\<close>.\<close>

definition environ_get :: "(str \<Rightarrow> str option) \<Rightarrow> str \<Rightarrow> error + str" where
  "environ_get environ key = (case environ key of None \<Rightarrow> Inl (KeyError key) | Some v \<Rightarrow> Inr v)"

text \<open>Loading the constants, in the order of the module.\<close>

definition load_constants :: "(str \<Rightarrow> str option) \<Rightarrow> error + config" where
  "load_constants environ =
     (case environ_get environ (py ''BOOK_AUTHOR'') of
        Inl e \<Rightarrow> Inl e
      | Inr author \<Rightarrow>
     (case environ_get environ (py ''BOOK_IDENTIFIER'') of
        Inl e \<Rightarrow> Inl e
      | Inr ident \<Rightarrow>
     (case environ_get environ (py ''BOOK_LANGUAGE'') of
        Inl e \<Rightarrow> Inl e
      | Inr lang' \<Rightarrow>
     (case environ_get environ (py ''BOOK_TITLE'') of
        Inl e \<Rightarrow> Inl e
      | Inr ttl \<Rightarrow>
          Inr \<lparr>BOOK_AUTHOR = author, BOOK_IDENTIFIER = ident, BOOK_LANGUAGE = lang',
               BOOK_TITLE = ttl\<rparr>))))"

definition style :: str where
  "style = py ''BODY { font-family: Gentium, Georgia, serif; }''"

definition nav_css :: item where
  "nav_css = EpubItem (py ''style_nav'') (py ''style/nav.css'') (py ''text/css'') style"

text \<open>The traversal root: \<open>soup.find('article')\<close>, and \<open>soup.body\<close> when that is false.\<close>

definition traversal_root :: "element \<Rightarrow> element option" where
  "traversal_root soup =
     (let article = find_tag (py ''article'') soup
      in if \<not> truthy article then body soup else article)"

text \<open>
  \<open>main\<close> from the parsed document on; the result is the book handed to \<open>write_epub\<close>.
  The book is created with the identifier, title, language and author of the configuration.
  With neither an article nor a body, \<open>article\<close> is \<open>None\<close> and \<open>article.children\<close>
  raises.
\<close>

definition new_book :: "config \<Rightarrow> EpubBook" where
  "new_book cfg =
     \<lparr>book_identifier = BOOK_IDENTIFIER cfg, book_title = BOOK_TITLE cfg,
      language = BOOK_LANGUAGE cfg, authors = [BOOK_AUTHOR cfg], items = [], toc = []\<rparr>"

definition main :: "config \<Rightarrow> element \<Rightarrow> error + EpubBook" where
  "main cfg soup =
     (let b = new_book cfg
      in case traversal_root soup of
           None \<Rightarrow> Inl (AttributeError (py ''children''))
         | Some article \<Rightarrow>
             (let v = split b (children article);
                  b1 = (book v)\<lparr>toc := chapters v\<rparr>;
                  b2 = add_item EpubNcx b1;
                  b3 = add_item EpubNav b2
              in Inr (add_item nav_css b3)))"

section \<open>Validating the path\<close>

text \<open>
  A \<open>Path\<close> as the library keeps it on a POSIX system: the root (nothing, one slash or two
  slashes) and the components after the root.
\<close>

record Path =
  path_root :: str
  path_parts :: "str list"

text \<open>\<open>s.split(sep)\<close> for a separator of one character.\<close>

fun split_on :: "nat \<Rightarrow> str \<Rightarrow> str list" where
  "split_on sep [] = [[]]"
| "split_on sep (c # cs) =
     (if c = sep then [] # split_on sep cs
      else (case split_on sep cs of [] \<Rightarrow> [[c]] | x # xs \<Rightarrow> (c # x) # xs))"

text \<open>
  \<open>Path(s)\<close>: exactly two leading slashes are kept as the root, any other number of them
  is one slash; the rest is split at the slashes, and the empty components and the
  components \<open>.\<close> are dropped.
\<close>

definition to_Path :: "str \<Rightarrow> Path" where
  "to_Path s =
     (let n = length (takeWhile (\<lambda>c. c = 47) s);
          rel = dropWhile (\<lambda>c. c = 47) s
      in \<lparr>path_root = (if n = 2 then py ''//'' else if 1 \<le> n then py ''/'' else []),
          path_parts = filter (\<lambda>x. x \<noteq> [] \<and> x \<noteq> py ''.'') (split_on 47 rel)\<rparr>)"

text \<open>\<open>str(path)\<close>: the root and the components joined by slashes, and \<open>.\<close> for the path
  without root and components.\<close>

definition str_path :: "Path \<Rightarrow> str" where
  "str_path p =
     (if path_root p \<noteq> [] then path_root p @ join (py ''/'') (path_parts p)
      else if path_parts p = [] then py ''.''
      else join (py ''/'') (path_parts p))"

text \<open>\<open>path.name\<close>: the last component, or the empty string without components.\<close>

definition path_name :: "Path \<Rightarrow> str" where
  "path_name p = (if path_parts p = [] then [] else last (path_parts p))"

text \<open>\<open>s.rfind(c)\<close>: the last index of the character, or \<open>-1\<close>.\<close>

definition rfind :: "nat \<Rightarrow> str \<Rightarrow> int" where
  "rfind c s =
     (if c \<in> set s then int (length s) - 1 - int (length (takeWhile (\<lambda>x. x \<noteq> c) (rev s)))
      else - 1)"

text \<open>\<open>path.suffix\<close>: the name from its last dot on, when that dot is neither its first
  nor its last character.\<close>

definition suffix :: "Path \<Rightarrow> str" where
  "suffix p =
     (let nm = path_name p; i = rfind 46 nm
      in if 0 < i \<and> i < int (length nm) - 1 then drop (nat i) nm else [])"

text \<open>
  What \<open>os.stat\<close> does with the text of a path: it succeeds, it raises \<open>OSError\<close> with an
  error number, or it raises \<open>ValueError\<close> for a text that cannot be handed to the system
  (a null character). The answers are the file system's, a parameter.
\<close>

datatype stat_result = Stat_ok | Stat_OSError nat | Stat_ValueError

definition ENOENT :: nat where "ENOENT = 2"
definition EBADF :: nat where "EBADF = 9"
definition ENOTDIR :: nat where "ENOTDIR = 20"
definition ENAMETOOLONG :: nat where "ENAMETOOLONG = 36"
definition ELOOP :: nat where "ELOOP = 40"
definition EACCES :: nat where "EACCES = 13"

text \<open>The error numbers that \<open>Path.exists\<close> takes for the answer no.\<close>

definition ignore_error :: "nat \<Rightarrow> bool" where
  "ignore_error e = (e \<in> set [ENOENT, ENOTDIR, EBADF, ELOOP])"

text \<open>
  \<open>path.exists()\<close>: true when \<open>stat\<close> succeeds, false when it fails with one of the ignored
  error numbers or with \<open>ValueError\<close>; any other \<open>OSError\<close> is raised again.
\<close>

definition exists :: "(str \<Rightarrow> stat_result) \<Rightarrow> Path \<Rightarrow> error + bool" where
  "exists os_stat p =
     (case os_stat (str_path p) of
        Stat_ok \<Rightarrow> Inr True
      | Stat_OSError e \<Rightarrow> (if ignore_error e then Inr False else Inl (OSError e))
      | Stat_ValueError \<Rightarrow> Inr False)"

definition validate_html_file :: "(str \<Rightarrow> stat_result) \<Rightarrow> Path \<Rightarrow> error + Path" where
  "validate_html_file os_stat path =
     (case exists os_stat path of
        Inl e \<Rightarrow> Inl e
      | Inr found \<Rightarrow>
          (if \<not> found then Inl (FileNotFoundError (py ''File not found: '' @ str_path path))
           else if lower (suffix path) \<noteq> py ''.html'' then
             Inl (ValueError (py ''File must have an .html extension, got: '' @ suffix path))
           else Inr path))"

text \<open>
  What the argument parser of the library makes of a command line, for the one option
  \<open>--html_path\<close> of the program: the texts that it hands to the option's \<open>type\<close> function, in
  their order, and the status with which the parser itself then ends the program, if it
  does (2 after a usage error, 0 after printing the help).
\<close>

record command_line =
  html_path_values :: "str list"
  parser_exit :: "int option"

text \<open>
  The \<open>type\<close> function \<open>lambda p: validate_html_file(Path(p))\<close> on the texts in their order;
  the last result is the value of the option. The parser turns a \<open>ValueError\<close> of the
  function into its own error message and ends the program with status 2; any other
  exception passes through it.
\<close>

fun convert_values ::
  "(str \<Rightarrow> stat_result) \<Rightarrow> str list \<Rightarrow> Path option \<Rightarrow> error + Path option" where
  "convert_values os_stat [] v = Inr v"
| "convert_values os_stat (s # ss) v =
     (case validate_html_file os_stat (to_Path s) of
        Inl (ValueError msg) \<Rightarrow> Inl (SystemExit 2)
      | Inl e \<Rightarrow> Inl e
      | Inr html_path \<Rightarrow> convert_values os_stat ss (Some html_path))"

text \<open>\<open>parse_args\<close>: the option is required, so a command line without it is a usage
  error.\<close>

definition parse_args :: "(str \<Rightarrow> stat_result) \<Rightarrow> command_line \<Rightarrow> error + Path" where
  "parse_args os_stat cl =
     (case convert_values os_stat (html_path_values cl) None of
        Inl e \<Rightarrow> Inl e
      | Inr v \<Rightarrow>
          (case parser_exit cl of
             Some status \<Rightarrow> Inl (SystemExit status)
           | None \<Rightarrow> (case v of None \<Rightarrow> Inl (SystemExit 2) | Some html_path \<Rightarrow> Inr html_path)))"

text \<open>
  The script: the module loads its constants from the environment, \<open>parse_args\<close> validates
  the path while it reads the command line, and only then \<open>main\<close> opens and parses the file
  (\<open>load\<close>, a parameter) and converts it.
\<close>

definition script ::
  "(str \<Rightarrow> str option) \<Rightarrow> (str \<Rightarrow> stat_result) \<Rightarrow> (Path \<Rightarrow> error + element) \<Rightarrow>
   command_line \<Rightarrow> error + EpubBook" where
  "script environ os_stat load cl =
     (case load_constants environ of
        Inl e \<Rightarrow> Inl e
      | Inr cfg \<Rightarrow>
          (case parse_args os_stat cl of
             Inl e \<Rightarrow> Inl e
           | Inr html_path \<Rightarrow>
               (case load html_path of
                  Inl e \<Rightarrow> Inl e
                | Inr soup \<Rightarrow> main cfg soup)))"

section \<open>Auxiliary definitions for the statements\<close>

text \<open>Reading decimal digits back, to show that \<open>str_nat\<close> loses nothing.\<close>

definition nat_of_digits :: "str \<Rightarrow> nat" where
  "nat_of_digits s = foldl (\<lambda>acc c. 10 * acc + (c - 48)) 0 s"

text \<open>
  Every heading among the children is followed by a tagged sibling before the next heading
  (or before the end, for the last heading).
\<close>

fun headings_followed :: "element list \<Rightarrow> bool" where
  "headings_followed [] = True"
| "headings_followed (el # els) =
     ((is_heading el \<longrightarrow> filter has_name (takeWhile (\<lambda>e. \<not> is_heading e) els) \<noteq> [])
      \<and> headings_followed els)"

text \<open>
  A tag without attributes over the given children, as the parser returns it: its text is
  the children's text, its serialised form wraps the children's in the opening and the
  closing tag.
\<close>

definition plain_tag :: "str \<Rightarrow> element list \<Rightarrow> element" where
  "plain_tag nm els =
     Tag nm (concat (map get_text els))
       ((py ''<'') @ nm @ (py ''>'') @ concat (map str els) @ (py ''</'') @ nm @ (py ''>'')) els"

text \<open>The parser's root object over the top-level nodes of a document.\<close>

definition document :: "element list \<Rightarrow> element" where
  "document els =
     Tag (py ''[document]'') (concat (map get_text els)) (concat (map str els)) els"

text \<open>The sample document \<open><article><h1>A</h1><p>x</p><h2>B</h2><p>y</p></article>\<close>, which
  the parser puts inside \<open>html\<close> and \<open>body\<close>.\<close>

definition sample_children :: "element list" where
  "sample_children =
     [plain_tag (py ''h1'') [NavigableString (py ''A'')], plain_tag (py ''p'') [NavigableString (py ''x'')],
      plain_tag (py ''h2'') [NavigableString (py ''B'')], plain_tag (py ''p'') [NavigableString (py ''y'')]]"

definition sample_soup :: element where
  "sample_soup =
     document [plain_tag (py ''html'') [plain_tag (py ''body'') [plain_tag (py ''article'') sample_children]]]"

text \<open>\<open><h1>A</h1><h2>B</h2>\<close>: two headings with nothing between them.\<close>

definition two_headings :: "element list" where
  "two_headings = [plain_tag (py ''h1'') [NavigableString (py ''A'')], plain_tag (py ''h2'') [NavigableString (py ''B'')]]"

text \<open>\<open><p>x</p> and <p>y</p>\<close>: no heading, a bare text node between two paragraphs.\<close>

definition no_headings :: "element list" where
  "no_headings =
     [plain_tag (py ''p'') [NavigableString (py ''x'')], NavigableString (py '' and ''),
      plain_tag (py ''p'') [NavigableString (py ''y'')]]"

text \<open>\<open><p>intro</p><article></article>\<close>: an article with no contents beside a paragraph.\<close>

definition empty_article_soup :: element where
  "empty_article_soup =
     document [plain_tag (py ''html'') [plain_tag (py ''body'')
       [plain_tag (py ''p'') [NavigableString (py ''intro'')], plain_tag (py ''article'') []]]]"

text \<open>\<open>just text\<close>: a text node and no tag.\<close>

definition only_text :: "element list" where
  "only_text = [NavigableString (py ''just text'')]"

text \<open>\<open><article>just text</article>\<close>, inside \<open>html\<close> and \<open>body\<close>.\<close>

definition only_text_soup :: element where
  "only_text_soup =
     document [plain_tag (py ''html'') [plain_tag (py ''body'') [plain_tag (py ''article'') only_text]]]"

definition sample_config :: config where
  "sample_config =
     \<lparr>BOOK_AUTHOR = py ''An Author'', BOOK_IDENTIFIER = py ''id-1'', BOOK_LANGUAGE = py ''en'',
      BOOK_TITLE = py ''A Title''\<rparr>"

text \<open>A character that is the given lower-case or unchanged character, or its ASCII capital.\<close>

definition same_letter :: "nat \<Rightarrow> nat \<Rightarrow> bool" where
  "same_letter c d = (c = d \<or> (65 \<le> c \<and> c \<le> 90 \<and> c + 32 = d))"

text \<open>A name that ends with a dot and the letters \<open>html\<close>, each in either case, after at
  least one more character.\<close>

definition is_html_name :: "str \<Rightarrow> bool" where
  "is_html_name nm =
     (5 < length nm \<and> list_all2 same_letter (drop (length nm - 5) nm) (py ''.html''))"

text \<open>An ASCII character that is no capital and that no character beyond ASCII has in its
  lower-case mapping.\<close>

definition plain_lower :: "nat \<Rightarrow> bool" where
  "plain_lower d = (d < 128 \<and> \<not> (65 \<le> d \<and> d \<le> 90) \<and> d \<noteq> 107 \<and> d \<noteq> 105)"

text \<open>A character that is no control character and, beyond ASCII, printable.\<close>

definition visible :: "nat \<Rightarrow> bool" where
  "visible c = (32 \<le> c \<and> c \<noteq> 127 \<and> (c < 128 \<or> isprintable c))"

text \<open>
  A sample file system: four files below \<open>docs\<close> and \<open>docs.html\<close>, a directory \<open>private\<close>
  that may not be searched, and names of at most 255 characters.
\<close>

definition sample_stat :: "str \<Rightarrow> stat_result" where
  "sample_stat s =
     (if list_ex (\<lambda>x. 255 < length x) (split_on 47 s) then Stat_OSError ENAMETOOLONG
      else if 0 \<in> set s then Stat_ValueError
      else if s = py ''private/book.html'' then Stat_OSError EACCES
      else if s \<in> set [py ''docs/book.htm'', py ''docs/Book.HTML'', py ''docs/.html'',
                         py ''docs.html/readme''] then Stat_ok
      else if s = py ''docs/book.htm/x.html'' then Stat_OSError ENOTDIR
      else Stat_OSError ENOENT)"

text \<open>A name of 256 characters: 251 times \<open>a\<close>, then \<open>.html\<close>.\<close>

definition long_name :: str where
  "long_name = replicate 251 97 @ py ''.html''"

text \<open>An environment with the four constants.\<close>

definition sample_environ :: "str \<Rightarrow> str option" where
  "sample_environ key =
     (if key = py ''BOOK_AUTHOR'' then Some (py ''An Author'')
      else if key = py ''BOOK_IDENTIFIER'' then Some (py ''id-1'')
      else if key = py ''BOOK_LANGUAGE'' then Some (py ''en'')
      else if key = py ''BOOK_TITLE'' then Some (py ''A Title'')
      else None)"

section \<open>Properties of the literals\<close>

lemma py_inject [simp]: "py s = py t \<longleftrightarrow> s = t"
proof -
  have "inj (of_char :: char \<Rightarrow> nat)" by (rule injI) simp
  then show ?thesis by (simp add: py_def inj_map_eq_map)
qed

lemma py_Nil [simp]: "py s = [] \<longleftrightarrow> s = []" "[] = py s \<longleftrightarrow> s = []"
  by (auto simp: py_def)

lemma py_append [simp]: "py s @ py t = py (s @ t)" "py s @ py t @ r = py (s @ t) @ r"
  by (simp_all add: py_def)

section \<open>Properties of the loop\<close>

lemma is_heading_has_name: "is_heading el \<Longrightarrow> has_name el"
  by (auto simp: is_heading_def has_name_def split: option.splits)

lemma for_children_append:
  "for_children (xs @ ys) v = for_children ys (for_children xs v)"
  by (induction xs arbitrary: v) simp_all

text \<open>The chapters are the chapters made by the recorded calls, in the order of the calls.\<close>

lemma chapters_calls:
  "chapters (add_last_chapter (for_children els v)) =
     chapters v @ map chapter_of_call
       (make_chapter_calls els (current_title v) (current_chapter v) (chapter_count v))"
proof (induction els arbitrary: v)
  case Nil
  show ?case by (simp add: add_last_chapter_def emit_chapter_def chapter_of_call_def Let_def)
next
  case (Cons el els)
  show ?case
    by (simp add: Cons.IH loop_body_def emit_chapter_def chapter_of_call_def Let_def
        is_heading_has_name)
qed

lemma split_chapters:
  "chapters (split b els) = map chapter_of_call (make_chapter_calls els (py ''Introduction'') [] 1)"
  by (simp add: split_def chapters_calls init_vars_def)

text \<open>The book receives the chapters as they are appended to \<open>chapters\<close>.\<close>

lemma loop_body_items:
  "items (book v) = pre @ map Html (chapters v) \<Longrightarrow>
   items (book (loop_body el v)) = pre @ map Html (chapters (loop_body el v))"
  by (simp add: loop_body_def emit_chapter_def add_item_def Let_def)

lemma for_children_items:
  "items (book v) = pre @ map Html (chapters v) \<Longrightarrow>
   items (book (for_children els v)) = pre @ map Html (chapters (for_children els v))"
  by (induction els arbitrary: v) (simp_all add: loop_body_items)

lemma split_items: "items (book (split b els)) = items b @ map Html (chapters (split b els))"
proof -
  have "items (book (init_vars b)) = items b @ map Html (chapters (init_vars b))"
    by (simp add: init_vars_def)
  then have "items (book (for_children els (init_vars b))) =
      items b @ map Html (chapters (for_children els (init_vars b)))"
    by (rule for_children_items)
  then show ?thesis
    by (simp add: split_def add_last_chapter_def emit_chapter_def add_item_def Let_def)
qed

lemma calls_bodies:
  "concat (map (\<lambda>c. fst (snd c)) (make_chapter_calls els ttl buf n)) =
     buf @ map str (filter has_name els)"
  by (induction els ttl buf n rule: make_chapter_calls.induct)
     (simp_all add: is_heading_has_name)

lemma calls_nonempty:
  "c \<in> set (make_chapter_calls els ttl buf n) \<Longrightarrow> fst (snd c) \<noteq> []"
  by (induction els ttl buf n rule: make_chapter_calls.induct)
     (auto split: if_splits)

lemma calls_ordinals:
  "map (\<lambda>c. snd (snd c)) (make_chapter_calls els ttl buf n) =
     [n..n + int (length (make_chapter_calls els ttl buf n)) - 1]"
proof (induction els ttl buf n rule: make_chapter_calls.induct)
  case (1 ttl buf n)
  show ?case by simp
next
  case (2 el els ttl buf n)
  show ?case
  proof (cases "is_heading el \<and> buf \<noteq> []")
    case True
    have "[n..n + int (length (make_chapter_calls els (get_text el) [str el] (n + 1)))] =
        n # [n + 1..n + 1 + int (length (make_chapter_calls els (get_text el) [str el] (n + 1))) - 1]"
      by (subst upto_rec1) (simp_all add: add.commute add.left_commute)
    with True 2 show ?thesis by simp
  next
    case False
    with 2 show ?thesis by auto
  qed
qed

lemma calls_filter:
  "make_chapter_calls (filter has_name els) ttl buf n = make_chapter_calls els ttl buf n"
  by (induction els ttl buf n rule: make_chapter_calls.induct)
     (simp_all add: is_heading_has_name)

lemma calls_no_heading:
  "\<forall>el\<in>set els. \<not> is_heading el \<Longrightarrow>
   make_chapter_calls els ttl buf n =
     (if buf @ map str (filter has_name els) = [] then []
      else [(ttl, buf @ map str (filter has_name els), n)])"
  by (induction els ttl buf n rule: make_chapter_calls.induct) auto

lemma calls_length_nonempty:
  "buf \<noteq> [] \<Longrightarrow>
   length (make_chapter_calls els ttl buf n) = Suc (length (filter is_heading els))"
  by (induction els ttl buf n rule: make_chapter_calls.induct) auto

lemma calls_length:
  "length (make_chapter_calls els ttl buf n) =
     length (filter is_heading els) +
     (if buf \<noteq> [] \<or> filter has_name (takeWhile (\<lambda>e. \<not> is_heading e) els) \<noteq> [] then 1 else 0)"
proof (induction els ttl buf n rule: make_chapter_calls.induct)
  case (1 ttl buf n)
  show ?case by simp
next
  case (2 el els ttl buf n)
  show ?case
  proof (cases "is_heading el")
    case True
    then show ?thesis by (simp add: calls_length_nonempty)
  next
    case False
    with 2 show ?thesis by (auto simp: calls_length_nonempty)
  qed
qed

section \<open>Properties of the string functions\<close>

lemma nat_of_digits_str_nat: "nat_of_digits (str_nat n) = n"
proof (induction n rule: str_nat.induct)
  case (1 n)
  show ?case
  proof (cases "n < 10")
    case True
    then show ?thesis
      by (subst str_nat.simps) (simp add: nat_of_digits_def digit_char_def)
  next
    case False
    with 1 have ih: "nat_of_digits (str_nat (n div 10)) = n div 10" by simp
    have "nat_of_digits (str_nat n) =
        10 * nat_of_digits (str_nat (n div 10)) + (digit_char (n mod 10) - 48)"
      using False by (subst str_nat.simps) (simp add: nat_of_digits_def)
    also have "\<dots> = 10 * (n div 10) + n mod 10"
      by (simp add: ih digit_char_def)
    finally show ?thesis by simp
  qed
qed

lemma str_nat_inj: "str_nat m = str_nat n \<Longrightarrow> m = n"
  by (metis nat_of_digits_str_nat)

lemma str_int_inj_nonneg: "0 \<le> i \<Longrightarrow> 0 \<le> j \<Longrightarrow> str_int i = str_int j \<Longrightarrow> i = j"
  by (auto simp: str_int_def dest: str_nat_inj)

lemma length_repr_char: "1 \<le> length (repr_char q c)"
  by (simp add: repr_char_def)

lemma length_concat_repr_char: "length s \<le> length (concat (map (repr_char q) s))"
proof (induction s)
  case Nil
  show ?case by simp
next
  case (Cons c s)
  with length_repr_char [of q c] show ?case by simp
qed

lemma length_repr: "length s + 2 \<le> length (repr s)"
  using length_concat_repr_char [of s "repr_quote s"] by (simp add: repr_def Let_def)

lemma length_join_repr: "length (concat xs) \<le> length (join sep (map repr xs))"
proof (induction xs rule: induct_list012)
  case 1
  show ?case by simp
next
  case (2 x)
  with length_repr [of x] show ?case by simp
next
  case (3 x y zs)
  with length_repr [of x] show ?case by simp
qed

lemma length_str_list: "length (concat xs) < length (str_list xs)"
  using length_join_repr [of xs "py '', ''"] by (simp add: str_list_def py_def)

lemma hexdigit_visible: "d < 16 \<Longrightarrow> visible (hexdigit d)"
  by (simp add: hexdigit_def visible_def)

lemma repr_quote_cases: "repr_quote s = 39 \<or> repr_quote s = 34"
  by (simp add: repr_quote_def)

lemma repr_char_visible:
  assumes q: "q = 39 \<or> q = 34"
  shows "list_all visible (repr_char q c)"
proof -
  have h: "visible (hexdigit (n mod 16))" for n
    by (simp add: hexdigit_visible)
  have b: "visible 92" "visible 116" "visible 110" "visible 114" "visible 120" "visible 117"
    "visible 85" "visible 39" "visible 34"
    by (simp_all add: visible_def)
  have x2: "list_all visible ([92, 120] @ [hexdigit (c div 16 mod 16), hexdigit (c mod 16)])"
    using h b by simp
  have x4: "list_all visible ([92, 117] @ [hexdigit (c div 4096 mod 16),
      hexdigit (c div 256 mod 16), hexdigit (c div 16 mod 16), hexdigit (c mod 16)])"
    using h b by simp
  have x8: "list_all visible ([92, 85] @ [hexdigit (c div 268435456 mod 16),
      hexdigit (c div 16777216 mod 16), hexdigit (c div 1048576 mod 16),
      hexdigit (c div 65536 mod 16), hexdigit (c div 4096 mod 16),
      hexdigit (c div 256 mod 16), hexdigit (c div 16 mod 16), hexdigit (c mod 16)])"
    using h b by simp
  have qv: "visible q" using q b by auto
  consider (esc) "c = q \<or> c = 92" | (tab) "c \<noteq> q" "c \<noteq> 92" "c = 9"
    | (nl) "c \<noteq> q" "c \<noteq> 92" "c = 10" | (cr) "c \<noteq> q" "c \<noteq> 92" "c = 13"
    | (ctl) "c \<noteq> q" "c \<noteq> 92" "c \<noteq> 9" "c \<noteq> 10" "c \<noteq> 13" "c < 32 \<or> c = 127"
    | (asc) "c \<noteq> q" "c \<noteq> 92" "32 \<le> c" "c < 127"
    | (np) "c \<noteq> q" "c \<noteq> 92" "127 < c" "\<not> isprintable c"
    | (pr) "c \<noteq> q" "c \<noteq> 92" "127 < c" "isprintable c"
    by linarith
  then show ?thesis
  proof cases
    case esc
    then have "repr_char q c = [92, c]" by (simp add: repr_char_def)
    with esc qv b show ?thesis by auto
  next
    case tab
    then have "repr_char q c = [92, 116]" by (simp add: repr_char_def)
    with b show ?thesis by simp
  next
    case nl
    then have "repr_char q c = [92, 110]" by (simp add: repr_char_def)
    with b show ?thesis by simp
  next
    case cr
    then have "repr_char q c = [92, 114]" by (simp add: repr_char_def)
    with b show ?thesis by simp
  next
    case ctl
    then have "repr_char q c = [92, 120] @ [hexdigit (c div 16 mod 16), hexdigit (c mod 16)]"
      unfolding repr_char_def by (simp only: if_False if_True simp_thms)
    with x2 show ?thesis by (simp only:)
  next
    case asc
    then have "repr_char q c = [c]" by (auto simp: repr_char_def)
    with asc show ?thesis by (simp add: visible_def)
  next
    case np
    then have c: "\<not> c < 32" "c \<noteq> 127" "\<not> c < 127" "c \<noteq> 9" "c \<noteq> 10" "c \<noteq> 13" by simp_all
    have "repr_char q c =
       (if c \<le> 255 then
           [92, 120] @ [hexdigit (c div 16 mod 16), hexdigit (c mod 16)]
         else if c \<le> 65535 then
           [92, 117] @ [hexdigit (c div 4096 mod 16), hexdigit (c div 256 mod 16),
             hexdigit (c div 16 mod 16), hexdigit (c mod 16)]
         else
           [92, 85] @ [hexdigit (c div 268435456 mod 16), hexdigit (c div 16777216 mod 16),
             hexdigit (c div 1048576 mod 16), hexdigit (c div 65536 mod 16),
             hexdigit (c div 4096 mod 16), hexdigit (c div 256 mod 16),
             hexdigit (c div 16 mod 16), hexdigit (c mod 16)])"
      unfolding repr_char_def using np c by (simp only: if_False if_True simp_thms)
    with x2 x4 x8 show ?thesis by (simp only: simp_thms split: if_splits)
  next
    case pr
    then have "repr_char q c = [c]" by (auto simp: repr_char_def)
    with pr show ?thesis by (simp add: visible_def)
  qed
qed

lemma concat_repr_char_visible:
  "q = 39 \<or> q = 34 \<Longrightarrow> list_all visible (concat (map (repr_char q) s))"
  by (induction s) (simp_all add: repr_char_visible)

lemma repr_visible: "list_all visible (repr s)"
proof -
  have q: "repr_quote s = 39 \<or> repr_quote s = 34" by (rule repr_quote_cases)
  then have "visible (repr_quote s)" by (auto simp: visible_def)
  with concat_repr_char_visible [OF q, of s] show ?thesis by (simp add: repr_def Let_def)
qed

lemma join_visible:
  "list_all visible sep \<Longrightarrow> \<forall>x\<in>set xs. list_all visible x \<Longrightarrow> list_all visible (join sep xs)"
  by (induction xs rule: induct_list012) simp_all

lemma str_list_visible: "list_all visible (str_list xs)"
proof -
  have "list_all visible (join (py '', '') (map repr xs))"
    by (rule join_visible) (simp_all add: py_def visible_def repr_visible)
  then show ?thesis by (simp add: str_list_def py_def visible_def)
qed

lemma lower_lookup_target:
  "list_all (\<lambda>(lo, hi, step, t). 128 \<le> t \<or> (t = 107 \<and> lo = hi)) rs \<Longrightarrow>
   lower_lookup rs c = Some x \<Longrightarrow> 128 \<le> x \<or> x = 107"
  by (induction rs c rule: lower_lookup.induct) (auto split: if_splits)

lemma lower_ranges_targets:
  "list_all (\<lambda>(lo, hi, step, t). 128 \<le> t \<or> (t = 107 \<and> lo = hi)) lower_ranges"
  by (simp add: lower_ranges_def)

lemma to_lower_beyond_ascii:
  assumes "128 \<le> c"
  shows "\<exists>x xs. to_lower c = x # xs \<and> (128 \<le> x \<or> x = 107 \<or> x = 105)"
proof (cases "lower_lookup lower_ranges c")
  case None
  with assms show ?thesis by (simp add: to_lower_def)
next
  case (Some x)
  from lower_lookup_target [OF lower_ranges_targets Some] Some assms
  show ?thesis by (auto simp: to_lower_def)
qed

lemma to_lower_ascii:
  "c < 128 \<Longrightarrow> to_lower c = [if 65 \<le> c \<and> c \<le> 90 then c + 32 else c]"
  by (simp add: to_lower_def)

lemma lower_from_plain:
  "list_all plain_lower t \<Longrightarrow> lower_from before s = t \<longleftrightarrow> list_all2 same_letter s t"
proof (induction s arbitrary: before t)
  case Nil
  show ?case by auto
next
  case (Cons c s)
  show ?case
  proof (cases t)
    case Nil
    have "lower_from before (c # s) \<noteq> []"
    proof (cases "c < 128")
      case True
      then show ?thesis by (simp add: to_lower_ascii)
    next
      case False
      then have "128 \<le> c" by simp
      from to_lower_beyond_ascii [OF this] show ?thesis by auto
    qed
    with Nil show ?thesis by simp
  next
    case t: (Cons d t')
    with Cons.prems have d: "plain_lower d" and t': "list_all plain_lower t'" by simp_all
    show ?thesis
    proof (cases "c < 128")
      case True
      then have "c \<noteq> 931" by simp
      with True have "lower_from before (c # s) =
          (if 65 \<le> c \<and> c \<le> 90 then c + 32 else c) # lower_from (c # before) s"
        by (simp add: to_lower_ascii)
      moreover have "(if 65 \<le> c \<and> c \<le> 90 then c + 32 else c) = d \<longleftrightarrow> same_letter c d"
        using d by (auto simp: same_letter_def plain_lower_def)
      ultimately show ?thesis
        using Cons.IH [OF t', of "c # before"] by (simp add: t)
    next
      case False
      then have c: "128 \<le> c" by simp
      have "\<exists>x xs. lower_from before (c # s) = x # xs \<and> (128 \<le> x \<or> x = 107 \<or> x = 105)"
      proof (cases "c = 931")
        case True
        then show ?thesis by simp
      next
        case False
        with to_lower_beyond_ascii [OF c] show ?thesis by auto
      qed
      then have "lower_from before (c # s) \<noteq> d # t'"
        using d by (auto simp: plain_lower_def)
      moreover have "\<not> same_letter c d"
        using c d by (auto simp: same_letter_def plain_lower_def)
      ultimately show ?thesis by (simp add: t)
    qed
  qed
qed

lemma lower_dot_html: "lower s = py ''.html'' \<longleftrightarrow> list_all2 same_letter s (py ''.html'')"
  unfolding lower_def by (rule lower_from_plain) (simp add: py_def plain_lower_def)

lemma rfind_last: "c \<notin> set ys \<Longrightarrow> rfind c (xs @ c # ys) = int (length xs)"
proof -
  assume "c \<notin> set ys"
  then have "takeWhile (\<lambda>x. x \<noteq> c) (rev ys @ c # rev xs) = rev ys"
    by (subst takeWhile_append2) auto
  then show ?thesis by (simp add: rfind_def)
qed

lemma suffix_html: "lower (suffix p) = py ''.html'' \<longleftrightarrow> is_html_name (path_name p)"
proof
  assume l: "lower (suffix p) = py ''.html''"
  define nm where "nm = path_name p"
  define i where "i = rfind 46 nm"
  from l have "suffix p \<noteq> []" by (auto simp: lower_def py_def)
  then have i: "0 < i" "i < int (length nm) - 1" and s: "suffix p = drop (nat i) nm"
    by (auto simp: suffix_def Let_def nm_def i_def split: if_splits)
  from l s have a: "list_all2 same_letter (drop (nat i) nm) (py ''.html'')"
    by (simp add: lower_dot_html)
  then have "length (drop (nat i) nm) = length (py ''.html'')"
    by (rule list_all2_lengthD)
  then have "length nm - nat i = 5" by (simp add: py_def)
  with i have "nat i = length nm - 5" "5 < length nm" by auto
  with a show "is_html_name (path_name p)"
    by (simp add: is_html_name_def nm_def)
next
  assume h: "is_html_name (path_name p)"
  define nm where "nm = path_name p"
  define e where "e = drop (length nm - 5) nm"
  from h have n: "5 < length nm" and a: "list_all2 same_letter e (py ''.html'')"
    by (simp_all add: is_html_name_def nm_def e_def)
  from a obtain x1 x2 x3 x4 where e: "e = 46 # [x1, x2, x3, x4]"
    and x: "x1 \<noteq> 46" "x2 \<noteq> 46" "x3 \<noteq> 46" "x4 \<noteq> 46"
    by (auto simp: py_def list_all2_Cons2 same_letter_def)
  have nm: "nm = take (length nm - 5) nm @ 46 # [x1, x2, x3, x4]"
    using e append_take_drop_id [of "length nm - 5" nm] by (simp only: e_def)
  have "rfind 46 (take (length nm - 5) nm @ 46 # [x1, x2, x3, x4]) =
      int (length (take (length nm - 5) nm))"
    by (rule rfind_last) (use x in auto)
  with nm n have r: "rfind 46 nm = int (length nm - 5)" by simp
  from n have "nat (int (length nm) - 5) = length nm - 5" by simp
  with r n have "suffix p = drop (length nm - 5) nm"
    by (simp add: suffix_def Let_def nm_def [symmetric])
  with a show "lower (suffix p) = py ''.html''"
    by (simp add: lower_dot_html e_def)
qed

section \<open>Properties of the samples and of the conversion\<close>

lemma plain_tag_simps:
  "name (plain_tag nm els) = Some nm"
  "str (plain_tag nm els) = (py ''<'') @ nm @ (py ''>'') @ concat (map str els) @ (py ''</'') @ nm @ (py ''>'')"
  "get_text (plain_tag nm els) = concat (map get_text els)"
  "children (plain_tag nm els) = els"
  by (simp_all add: plain_tag_def)

lemma descendants_plain_tag:
  "descendants (plain_tag nm els) = concat (map (\<lambda>c. c # descendants c) els)"
  by (simp add: plain_tag_def)

lemma descendants_document:
  "descendants (document els) = concat (map (\<lambda>c. c # descendants c) els)"
  by (simp add: document_def)

text \<open>A node without a name leaves every variable of the loop as it is.\<close>

lemma loop_body_untagged: "\<not> has_name t \<Longrightarrow> loop_body t v = v"
  using is_heading_has_name [of t] by (auto simp: loop_body_def)

lemma for_children_untagged: "\<forall>t\<in>set ts. \<not> has_name t \<Longrightarrow> for_children ts v = v"
  by (induction ts) (simp_all add: loop_body_untagged)

lemma for_children_filter:
  "for_children (filter (\<lambda>el. name el \<noteq> None) els) v = for_children els v"
proof (induction els arbitrary: v)
  case Nil
  show ?case by simp
next
  case (Cons el els)
  show ?case
  proof (cases "name el")
    case None
    then have "loop_body el v = v" by (simp add: loop_body_untagged has_name_def)
    with None Cons show ?thesis by simp
  next
    case (Some n)
    with Cons show ?thesis by simp
  qed
qed

text \<open>A heading starts the buffer with itself and sets the title.\<close>

lemma loop_body_heading:
  "is_heading a \<Longrightarrow>
   current_chapter (loop_body a v) = [str a] \<and> current_title (loop_body a v) = get_text a"
  by (simp add: loop_body_def Let_def is_heading_has_name)

lemma loop_body_heading_flush:
  "is_heading b \<Longrightarrow> current_chapter v \<noteq> [] \<Longrightarrow>
   chapters (loop_body b v) =
     chapters v @ [make_chapter (current_title v) (current_chapter v) (chapter_count v)] \<and>
   chapter_count (loop_body b v) = chapter_count v + 1"
  by (simp add: loop_body_def emit_chapter_def Let_def is_heading_has_name)

text \<open>The first match of \<open>List.find\<close> splits the list.\<close>

lemma find_first:
  "\<exists>x\<in>set xs. P x \<Longrightarrow>
   \<exists>pre a post. xs = pre @ a # post \<and> P a \<and> (\<forall>y\<in>set pre. \<not> P y) \<and> List.find P xs = Some a"
proof (induction xs)
  case Nil
  then show ?case by simp
next
  case (Cons x xs)
  show ?case
  proof (cases "P x")
    case True
    then have "x # xs = [] @ x # xs \<and> P x \<and> (\<forall>y\<in>set []. \<not> P y) \<and> List.find P (x # xs) = Some x"
      by simp
    then show ?thesis by blast
  next
    case False
    with Cons.prems have "\<exists>x\<in>set xs. P x" by simp
    from Cons.IH [OF this] obtain pre a post where
      *: "xs = pre @ a # post" "P a" "\<forall>y\<in>set pre. \<not> P y" "List.find P xs = Some a"
      by blast
    from * False have "x # xs = (x # pre) @ a # post \<and> P a \<and> (\<forall>y\<in>set (x # pre). \<not> P y)
        \<and> List.find P (x # xs) = Some a"
      by simp
    then show ?thesis by blast
  qed
qed

text \<open>The book that \<open>main\<close> returns, from the traversal root.\<close>

lemma main_book:
  "traversal_root soup = Some article \<Longrightarrow>
   main cfg soup = Inr ((book (split (new_book cfg) (children article)))
     \<lparr>toc := chapters (split (new_book cfg) (children article)),
      items := map Html (chapters (split (new_book cfg) (children article))) @
               [EpubNcx, EpubNav, nav_css]\<rparr>)"
  by (simp add: main_def Let_def add_item_def split_items new_book_def)

lemma sample_root: "traversal_root sample_soup = Some (plain_tag (py ''article'') sample_children)"
  by (simp add: traversal_root_def find_tag_def sample_soup_def descendants_document
      descendants_plain_tag plain_tag_simps Let_def)

lemma sample_calls:
  "make_chapter_calls sample_children (py ''Introduction'') [] 1 =
     [((py ''A''), [py ''<h1>A</h1>'', py ''<p>x</p>''], 1), ((py ''B''), [py ''<h2>B</h2>'', py ''<p>y</p>''], 2)]"
  by (simp add: sample_children_def is_heading_def has_name_def plain_tag_simps)

lemma sample_content:
  "str_list [py ''<h1>A</h1>'', py ''<p>x</p>''] = py ''['<h1>A</h1>', '<p>x</p>']''"
  "str_list [py ''<h2>B</h2>'', py ''<p>y</p>''] = py ''['<h2>B</h2>', '<p>y</p>']''"
  by (simp_all add: str_list_def repr_def repr_quote_def repr_char_def Let_def py_def)

lemma str_int_1_2: "str_int 1 = py ''1''" "str_int 2 = py ''2''"
  by (simp_all add: str_int_def str_nat.simps digit_char_def py_def)

lemma sample_followed: "headings_followed sample_children"
  by (simp add: sample_children_def is_heading_def has_name_def plain_tag_simps)

lemma file_name_chapter_of_call:
  "file_name (chapter_of_call c) = (py ''chap_'') @ str_int (snd (snd c)) @ (py ''.xhtml'')"
  by (cases c) (simp add: chapter_of_call_def make_chapter_def)

lemma chap_name_inj_on: "inj_on (\<lambda>i. (py ''chap_'') @ str_int i @ (py ''.xhtml'')) {i. 0 \<le> i}"
  by (rule inj_onI) (simp add: str_int_inj_nonneg)

section \<open>Properties of the path functions and of the script\<close>

lemma suffix_of_name:
  "path_name p = stem @ 46 # ext \<Longrightarrow> 46 \<notin> set ext \<Longrightarrow>
   suffix p = (if stem \<noteq> [] \<and> ext \<noteq> [] then 46 # ext else [])"
  by (auto simp: suffix_def Let_def rfind_last)

lemma suffix_no_dot: "46 \<notin> set (path_name p) \<Longrightarrow> suffix p = []"
  by (simp add: suffix_def Let_def rfind_def)

lemma split_on_no_sep: "sep \<notin> set s \<Longrightarrow> split_on sep s = [s]"
  by (induction s) auto

lemma to_Path_one_part:
  assumes "47 \<notin> set s" "s \<noteq> []" "s \<noteq> py ''.''"
  shows "to_Path s = \<lparr>path_root = [], path_parts = [s]\<rparr>"
proof -
  from assms obtain c cs where s: "s = c # cs" and c: "c \<noteq> 47"
    by (cases s) auto
  then have "takeWhile (\<lambda>c. c = 47) s = []" "dropWhile (\<lambda>c. c = 47) s = s"
    by simp_all
  with assms show ?thesis
    by (simp add: to_Path_def Let_def split_on_no_sep)
qed

lemma validate_cases:
  "validate_html_file os_stat path =
     (case os_stat (str_path path) of
        Stat_ok \<Rightarrow>
          (if is_html_name (path_name path) then Inr path
           else Inl (ValueError (py ''File must have an .html extension, got: '' @ suffix path)))
      | Stat_OSError e \<Rightarrow>
          (if ignore_error e then Inl (FileNotFoundError (py ''File not found: '' @ str_path path))
           else Inl (OSError e))
      | Stat_ValueError \<Rightarrow> Inl (FileNotFoundError (py ''File not found: '' @ str_path path)))"
  by (simp add: validate_html_file_def exists_def suffix_html split: stat_result.splits)

lemma convert_values_error:
  "\<exists>s\<in>set ss. \<exists>e. validate_html_file os_stat (to_Path s) = Inl e \<Longrightarrow>
   \<exists>e. convert_values os_stat ss v = Inl e"
proof (induction ss arbitrary: v)
  case Nil
  then show ?case by simp
next
  case (Cons s ss)
  show ?case
  proof (cases "validate_html_file os_stat (to_Path s)")
    case (Inl e)
    then show ?thesis by (cases e) simp_all
  next
    case (Inr p)
    with Cons.prems have "\<exists>s\<in>set ss. \<exists>e. validate_html_file os_stat (to_Path s) = Inl e"
      by auto
    from Cons.IH [OF this] Inr show ?thesis by simp
  qed
qed

lemma script_parse_error:
  "parse_args os_stat cl = Inl e \<Longrightarrow>
   (\<exists>e'. script environ os_stat load cl = Inl e') \<and>
   script environ os_stat load' cl = script environ os_stat load cl"
  by (simp add: script_def split: sum.splits)

lemmas errno_defs = ENOENT_def EBADF_def ENOTDIR_def ENAMETOOLONG_def ELOOP_def EACCES_def

lemma sample_to_Path:
  "to_Path (py ''docs//./book.htm/'') = \<lparr>path_root = [], path_parts = [py ''docs'', py ''book.htm'']\<rparr>"
  "to_Path (py ''./docs/Book.HTML'') = \<lparr>path_root = [], path_parts = [py ''docs'', py ''Book.HTML'']\<rparr>"
  "to_Path (py ''docs/.html'') = \<lparr>path_root = [], path_parts = [py ''docs'', py ''.html'']\<rparr>"
  "to_Path (py ''docs.html/readme'') = \<lparr>path_root = [], path_parts = [py ''docs.html'', py ''readme'']\<rparr>"
  "to_Path (py ''docs/missing.html'') = \<lparr>path_root = [], path_parts = [py ''docs'', py ''missing.html'']\<rparr>"
  "to_Path (py ''docs/book.htm/x.html'') =
     \<lparr>path_root = [], path_parts = [py ''docs'', py ''book.htm'', py ''x.html'']\<rparr>"
  "to_Path (py ''private/book.html'') = \<lparr>path_root = [], path_parts = [py ''private'', py ''book.html'']\<rparr>"
  "to_Path (py ''///srv//books/'') = \<lparr>path_root = py ''/'', path_parts = [py ''srv'', py ''books'']\<rparr>"
  "to_Path (py ''//srv/books'') = \<lparr>path_root = py ''//'', path_parts = [py ''srv'', py ''books'']\<rparr>"
  "to_Path [] = \<lparr>path_root = [], path_parts = []\<rparr>"
  "to_Path (py ''docs/book.htm'') = \<lparr>path_root = [], path_parts = [py ''docs'', py ''book.htm'']\<rparr>"
  "to_Path (py ''docs/Book.HTML'') = \<lparr>path_root = [], path_parts = [py ''docs'', py ''Book.HTML'']\<rparr>"
  by (simp_all add: to_Path_def Let_def py_def)

lemma sample_str_path:
  "str_path \<lparr>path_root = [], path_parts = [py ''docs'', py ''book.htm'']\<rparr> = py ''docs/book.htm''"
  "str_path \<lparr>path_root = [], path_parts = [py ''docs'', py ''Book.HTML'']\<rparr> = py ''docs/Book.HTML''"
  "str_path \<lparr>path_root = [], path_parts = [py ''docs'', py ''.html'']\<rparr> = py ''docs/.html''"
  "str_path \<lparr>path_root = [], path_parts = [py ''docs.html'', py ''readme'']\<rparr> = py ''docs.html/readme''"
  "str_path \<lparr>path_root = [], path_parts = [py ''docs'', py ''missing.html'']\<rparr> = py ''docs/missing.html''"
  "str_path \<lparr>path_root = [], path_parts = [py ''docs'', py ''book.htm'', py ''x.html'']\<rparr> =
     py ''docs/book.htm/x.html''"
  "str_path \<lparr>path_root = [], path_parts = [py ''private'', py ''book.html'']\<rparr> = py ''private/book.html''"
  "str_path \<lparr>path_root = py ''/'', path_parts = [py ''srv'', py ''books'']\<rparr> = py ''/srv/books''"
  "str_path \<lparr>path_root = py ''//'', path_parts = [py ''srv'', py ''books'']\<rparr> = py ''//srv/books''"
  "str_path \<lparr>path_root = [], path_parts = []\<rparr> = py ''.''"
  by (simp_all add: str_path_def)

lemma sample_stat_values:
  "sample_stat (py ''docs/book.htm'') = Stat_ok"
  "sample_stat (py ''docs/Book.HTML'') = Stat_ok"
  "sample_stat (py ''docs/.html'') = Stat_ok"
  "sample_stat (py ''docs.html/readme'') = Stat_ok"
  "sample_stat (py ''docs/missing.html'') = Stat_OSError ENOENT"
  "sample_stat (py ''docs/book.htm/x.html'') = Stat_OSError ENOTDIR"
  "sample_stat (py ''private/book.html'') = Stat_OSError EACCES"
  by (simp_all add: sample_stat_def) (simp_all add: py_def)

lemma sample_names:
  "is_html_name (py ''Book.HTML'')"
  "\<not> is_html_name (py ''book.htm'')"
  "\<not> is_html_name (py ''.html'')"
  "\<not> is_html_name (py ''readme'')"
  by (simp_all add: is_html_name_def same_letter_def py_def)

lemma long_name_path: "to_Path long_name = \<lparr>path_root = [], path_parts = [long_name]\<rparr>"
proof (rule to_Path_one_part)
  show "47 \<notin> set long_name" by (auto simp: long_name_def py_def)
  show "long_name \<noteq> []" by (simp add: long_name_def)
  show "long_name \<noteq> py ''.''"
  proof
    assume "long_name = py ''.''"
    then have "length long_name = length (py ''.'')" by (rule arg_cong)
    then have "length long_name = 1" by (simp add: py_def)
    moreover have "length long_name = 256" by (simp add: long_name_def py_def)
    ultimately show False by simp
  qed
qed

lemma long_name_stat: "sample_stat long_name = Stat_OSError ENAMETOOLONG"
proof -
  have "47 \<notin> set long_name" by (auto simp: long_name_def py_def)
  then have "split_on 47 long_name = [long_name]" by (rule split_on_no_sep)
  moreover have "length long_name = 256" by (simp add: long_name_def py_def)
  ultimately show ?thesis by (simp add: sample_stat_def)
qed

lemma lower_examples:
  "lower (py ''.HtMl'') = py ''.html''"
  "lower (py ''Book.HTML'') = py ''book.html''"
  "lower ([201] @ py ''t'' @ [233]) = [233] @ py ''t'' @ [233]"
  "lower [8490] = py ''k''"
  "lower [304] = py ''i'' @ [775]"
  "lower [913, 931] = [945, 962]"
  "lower [931] = [963]"
  "lower [913, 931, 913] = [945, 963, 945]"
  "lower [913, 39, 931] = [945, 39, 962]"
  "lower ([913, 931] @ py ''.'') = [945, 962] @ py ''.''"
  "lower [913, 931, 769, 914] = [945, 963, 769, 946]"
  "lower (py ''A'' @ [931] @ py '' B'') = py ''a'' @ [962] @ py '' b''"
  "lower [66560] = [66600]"
  by (simp_all add: lower_def to_lower_def py_def lower_ranges_def in_ranges_def
      case_ignorable_ranges_def cased_ranges_def)

lemma sample_constants: "load_constants sample_environ = Inr sample_config"
  by (simp add: load_constants_def environ_get_def sample_environ_def sample_config_def)

lemma missing_constant:
  "load_constants (sample_environ(py ''BOOK_LANGUAGE'' := None)) = Inl (KeyError (py ''BOOK_LANGUAGE''))"
  by (simp add: load_constants_def environ_get_def sample_environ_def)

lemma script_examples:
  "script sample_environ sample_stat load \<lparr>html_path_values = [], parser_exit = Some 2\<rparr> =
     Inl (SystemExit 2)"
  "script sample_environ sample_stat load \<lparr>html_path_values = [], parser_exit = None\<rparr> =
     Inl (SystemExit 2)"
  "script sample_environ sample_stat load
     \<lparr>html_path_values = [py ''docs/book.htm''], parser_exit = None\<rparr> = Inl (SystemExit 2)"
  "script sample_environ sample_stat load
     \<lparr>html_path_values = [py ''docs/missing.html''], parser_exit = None\<rparr> =
     Inl (FileNotFoundError (py ''File not found: docs/missing.html''))"
  "script sample_environ sample_stat load
     \<lparr>html_path_values = [py ''private/book.html''], parser_exit = None\<rparr> = Inl (OSError EACCES)"
  "script sample_environ sample_stat load
     \<lparr>html_path_values = [py ''docs/Book.HTML''], parser_exit = Some 0\<rparr> = Inl (SystemExit 0)"
  "script sample_environ sample_stat load
     \<lparr>html_path_values = [py ''docs/book.htm'', py ''docs/Book.HTML''], parser_exit = None\<rparr> =
     Inl (SystemExit 2)"
  "script sample_environ sample_stat
     (\<lambda>p. if p = \<lparr>path_root = [], path_parts = [py ''docs'', py ''Book.HTML'']\<rparr>
          then Inr sample_soup else Inl (OSError ENOENT))
     \<lparr>html_path_values = [py ''docs/missing.html'', py ''docs/Book.HTML''], parser_exit = None\<rparr> =
     Inl (FileNotFoundError (py ''File not found: docs/missing.html''))"
  "script sample_environ sample_stat
     (\<lambda>p. if p = \<lparr>path_root = [], path_parts = [py ''docs'', py ''Book.HTML'']\<rparr>
          then Inr sample_soup else Inl (OSError ENOENT))
     \<lparr>html_path_values = [py ''docs/Book.HTML''], parser_exit = None\<rparr> =
     main sample_config sample_soup"
  by (simp_all add: script_def parse_args_def sample_constants validate_cases sample_to_Path
      sample_str_path sample_stat_values path_name_def sample_names ignore_error_def errno_defs)

lemma script_missing_constant:
  "script (sample_environ(py ''BOOK_TITLE'' := None)) sample_stat load cl =
     Inl (KeyError (py ''BOOK_TITLE''))"
  by (simp add: script_def load_constants_def environ_get_def sample_environ_def)

lemma str_list_examples:
  "str_list [py ''<h1>A</h1>'', py ''<p>x</p>''] =
       py ''['' @ [39] @ py ''<h1>A</h1>'' @ [39] @ py '', '' @ [39] @ py ''<p>x</p>'' @ [39] @ py '']''"
  "str_list [py ''<p>it'' @ [39] @ py ''s</p>''] =
       py ''['' @ [34] @ py ''<p>it'' @ [39] @ py ''s</p>'' @ [34] @ py '']''"
  "str_list [py ''<p class='' @ [34] @ py ''q'' @ [34] @ py ''>it'' @ [39] @ py ''s</p>''] =
       py ''['' @ [39] @ py ''<p class='' @ [34] @ py ''q'' @ [34] @ py ''>it'' @ [92, 39] @ py ''s</p>'' @ [39] @ py '']''"
  "str_list [py ''<a href='' @ [34] @ py ''x'' @ [34] @ py ''>y</a>''] =
       py ''['' @ [39] @ py ''<a href='' @ [34] @ py ''x'' @ [34] @ py ''>y</a>'' @ [39] @ py '']''"
  "str_list [py ''<p>a'' @ [10] @ py ''b'' @ [9] @ py ''c'' @ [13] @ py ''d</p>''] =
       py ''['' @ [39] @ py ''<p>a'' @ [92] @ py ''nb'' @ [92] @ py ''tc'' @ [92] @ py ''rd</p>'' @ [39] @ py '']''"
  "str_list [py ''C:'' @ [92] @ py ''dir''] =
       py ''['' @ [39] @ py ''C:'' @ [92, 92] @ py ''dir'' @ [39] @ py '']''"
  "str_list [[11, 127, 0]] =
       py ''['' @ [39, 92] @ py ''x0b'' @ [92] @ py ''x7f'' @ [92] @ py ''x00'' @ [39] @ py '']''"
  "str_list [py ''caf'' @ [233] @ py '' '' @ [20013] @ py '' '' @ [128512]] =
       py ''['' @ [39] @ py ''caf'' @ [233] @ py '' '' @ [20013] @ py '' '' @ [128512, 39] @ py '']''"
  "str_list [py ''a'' @ [160] @ py ''b'' @ [173] @ py ''c''] =
       py ''['' @ [39] @ py ''a'' @ [92] @ py ''xa0b'' @ [92] @ py ''xadc'' @ [39] @ py '']''"
  "str_list [[8239, 8232, 8203]] =
       py ''['' @ [39, 92] @ py ''u202f'' @ [92] @ py ''u2028'' @ [92] @ py ''u200b'' @ [39] @ py '']''"
  "str_list [[917505]] =
       py ''['' @ [39, 92] @ py ''U000e0001'' @ [39] @ py '']''"
  by (simp_all add: str_list_def repr_def repr_quote_def repr_char_def Let_def py_def hexdigit_def
      isprintable_def in_ranges_def nonprintable_ranges_def)

section \<open>The claims\<close>

subsection \<open>C1: two consecutive headings\<close>

text \<open>
  C1, as amended. When two headings follow each other with no tagged node between them,
  the loop reaches the second heading with the first heading's serialised form in the
  buffer, since a heading is appended to the buffer it starts. So the second heading
  flushes: one chapter is emitted between the two headings, titled with the first heading's
  text, its body only the first heading's serialised form, and the ordinal advances by one;
  then the second heading's text becomes the pending title and the buffer holds the second
  heading alone. The chapter stays in the final sequence, followed by the chapters of the
  rest of the document.
\<close>

theorem consecutive_headings_emit:
  assumes a: "is_heading a" and b: "is_heading b" and ts: "\<forall>t\<in>set ts. \<not> has_name t"
  shows "chapters (for_children (pre @ a # ts @ [b]) (init_vars bk)) =
           chapters (for_children (pre @ [a]) (init_vars bk)) @
           [make_chapter (get_text a) [str a]
              (chapter_count (for_children (pre @ [a]) (init_vars bk)))]
       \<and> chapter_count (for_children (pre @ a # ts @ [b]) (init_vars bk)) =
           chapter_count (for_children (pre @ [a]) (init_vars bk)) + 1
       \<and> current_title (for_children (pre @ a # ts @ [b]) (init_vars bk)) = get_text b
       \<and> current_chapter (for_children (pre @ a # ts @ [b]) (init_vars bk)) = [str b]
       \<and> chapters (split bk (pre @ a # ts @ b # post)) =
           chapters (for_children (pre @ [a]) (init_vars bk)) @
           make_chapter (get_text a) [str a]
             (chapter_count (for_children (pre @ [a]) (init_vars bk))) #
           map chapter_of_call (make_chapter_calls post (get_text b) [str b]
             (chapter_count (for_children (pre @ [a]) (init_vars bk)) + 1))"
proof -
  define va where "va = for_children (pre @ [a]) (init_vars bk)"
  define vb where "vb = for_children (pre @ a # ts @ [b]) (init_vars bk)"
  have va: "va = loop_body a (for_children pre (init_vars bk))"
    by (simp add: va_def for_children_append)
  have cur: "current_chapter va = [str a]" "current_title va = get_text a"
    using loop_body_heading [OF a] by (simp_all add: va)
  have "vb = for_children (ts @ [b]) va"
    by (simp add: vb_def va for_children_append)
  also have "\<dots> = loop_body b va"
    by (simp add: for_children_append for_children_untagged [OF ts])
  finally have vb: "vb = loop_body b va" .
  have ne: "current_chapter va \<noteq> []" by (simp add: cur)
  have st: "chapters vb = chapters va @ [make_chapter (get_text a) [str a] (chapter_count va)]"
    "chapter_count vb = chapter_count va + 1"
    "current_title vb = get_text b" "current_chapter vb = [str b]"
    using loop_body_heading_flush [OF b ne] loop_body_heading [OF b, of va]
    by (simp_all add: vb cur)
  have "pre @ a # ts @ b # post = (pre @ a # ts @ [b]) @ post" by simp
  then have "split bk (pre @ a # ts @ b # post) = add_last_chapter (for_children post vb)"
    by (simp only: split_def for_children_append vb_def)
  then have "chapters (split bk (pre @ a # ts @ b # post)) =
      chapters vb @ map chapter_of_call
        (make_chapter_calls post (current_title vb) (current_chapter vb) (chapter_count vb))"
    by (simp only: chapters_calls)
  then have fin: "chapters (split bk (pre @ a # ts @ b # post)) =
      chapters va @ make_chapter (get_text a) [str a] (chapter_count va) #
      map chapter_of_call (make_chapter_calls post (get_text b) [str b] (chapter_count va + 1))"
    by (simp add: st)
  from st fin show ?thesis
    unfolding va_def vb_def by simp
qed

text \<open>The theorem on \<open><h1>A</h1> <h2>B</h2>\<close>, a blank text node between the headings.\<close>

theorem consecutive_headings_emit_witness:
  "chapters (for_children ([] @ (two_headings ! 0) # [NavigableString (py '' '')] @ [two_headings ! 1])
      (init_vars (new_book sample_config))) =
     [make_chapter (py ''A'') [py ''<h1>A</h1>''] 1]
   \<and> chapter_count (for_children
        ([] @ (two_headings ! 0) # [NavigableString (py '' '')] @ [two_headings ! 1])
        (init_vars (new_book sample_config))) = 2"
proof -
  have a: "is_heading (two_headings ! 0)" and b: "is_heading (two_headings ! 1)"
    by (simp_all add: two_headings_def is_heading_def plain_tag_simps)
  have ts: "\<forall>t\<in>set [NavigableString (py '' '')]. \<not> has_name t"
    by (simp add: has_name_def)
  show ?thesis
    using consecutive_headings_emit [OF a b ts, of "[]" "new_book sample_config" "[]"]
    by (simp add: two_headings_def plain_tag_simps loop_body_def init_vars_def is_heading_def
        has_name_def Let_def)
qed

text \<open>
  C1 as stated fails on \<open><h1>A</h1><h2>B</h2>\<close>: after the first heading no chapter has
  been emitted and the ordinal is 1; after the second, the chapter \<open>A\<close> has been emitted and
  the ordinal is 2; the result has the two chapters \<open>A\<close> and \<open>B\<close>.
\<close>

theorem two_headings_counterexample:
  "is_heading (two_headings ! 0) \<and> is_heading (two_headings ! 1)
   \<and> chapters (for_children (take 1 two_headings) (init_vars (new_book sample_config))) = []
   \<and> chapter_count (for_children (take 1 two_headings) (init_vars (new_book sample_config))) = 1
   \<and> chapters (for_children two_headings (init_vars (new_book sample_config))) =
        [make_chapter (py ''A'') [py ''<h1>A</h1>''] 1]
   \<and> chapter_count (for_children two_headings (init_vars (new_book sample_config))) = 2
   \<and> chapters (split (new_book sample_config) two_headings) =
        [make_chapter (py ''A'') [py ''<h1>A</h1>''] 1, make_chapter (py ''B'') [py ''<h2>B</h2>''] 2]"
  by (simp add: two_headings_def plain_tag_simps loop_body_def init_vars_def is_heading_def
        has_name_def Let_def split_def add_last_chapter_def emit_chapter_def)

subsection \<open>C2: ordinals and file names\<close>

text \<open>
  C2. The ordinals of the calls of \<open>make_chapter\<close>, the last flush included, are
  \<open>1, 2, ..., K\<close> for the \<open>K\<close> emitted chapters; the file names are \<open>chap_1.xhtml\<close> to
  \<open>chap_K.xhtml\<close> in this order, and no two of them are equal.
\<close>

theorem chapter_ordinals:
  "map (\<lambda>c. snd (snd c)) (make_chapter_calls els (py ''Introduction'') [] 1) =
     [1..int (length (chapters (split b els)))]
   \<and> map file_name (chapters (split b els)) =
     map (\<lambda>i. (py ''chap_'') @ str_int i @ (py ''.xhtml'')) [1..int (length (chapters (split b els)))]
   \<and> distinct (map file_name (chapters (split b els)))"
proof -
  define cs where "cs = make_chapter_calls els (py ''Introduction'') [] 1"
  have ch: "chapters (split b els) = map chapter_of_call cs"
    by (simp add: cs_def split_chapters)
  have ords: "map (\<lambda>c. snd (snd c)) cs = [1..int (length cs)]"
    using calls_ordinals [of els "(py ''Introduction'')" "[]" 1] by (simp add: cs_def)
  have "map file_name (map chapter_of_call cs) =
      map (\<lambda>i. (py ''chap_'') @ str_int i @ (py ''.xhtml'')) (map (\<lambda>c. snd (snd c)) cs)"
    by (simp add: file_name_chapter_of_call)
  then have names: "map file_name (map chapter_of_call cs) =
      map (\<lambda>i. (py ''chap_'') @ str_int i @ (py ''.xhtml'')) [1..int (length cs)]"
    by (simp only: ords)
  have "inj_on (\<lambda>i. (py ''chap_'') @ str_int i @ (py ''.xhtml'')) (set [1..int (length cs)])"
    by (rule inj_on_subset [OF chap_name_inj_on]) auto
  then have "distinct (map (\<lambda>i. (py ''chap_'') @ str_int i @ (py ''.xhtml'')) [1..int (length cs)])"
    by (simp add: distinct_map)
  with names ords show ?thesis
    unfolding ch cs_def [symmetric] by simp
qed

subsection \<open>C3: a document without headings\<close>

text \<open>
  C3, as amended. When no child of the traversal root is a heading and at least one child
  is tagged, the split produces exactly one chapter, titled \<open>Introduction\<close>, with ordinal 1,
  whose body is the serialised forms of all tagged children in document order.
\<close>

theorem no_heading_one_chapter:
  assumes "\<forall>el\<in>set els. \<not> is_heading el" and "filter has_name els \<noteq> []"
  shows "chapters (split b els) =
           [make_chapter (py ''Introduction'') (map str (filter has_name els)) 1]"
  using assms by (simp add: split_chapters calls_no_heading chapter_of_call_def)

text \<open>The theorem on \<open><p>x</p> and <p>y</p>\<close>.\<close>

theorem no_heading_one_chapter_witness:
  "chapters (split (new_book sample_config) no_headings) =
     [make_chapter (py ''Introduction'') [py ''<p>x</p>'', py ''<p>y</p>''] 1]"
proof -
  have h: "\<forall>el\<in>set no_headings. \<not> is_heading el"
    by (simp add: no_headings_def is_heading_def plain_tag_simps)
  have t: "filter has_name no_headings \<noteq> []"
    by (simp add: no_headings_def has_name_def plain_tag_simps)
  show ?thesis
    using no_heading_one_chapter [OF h t, of "new_book sample_config"]
    by (simp add: no_headings_def has_name_def plain_tag_simps)
qed

text \<open>
  C3 as stated fails on a root that holds only text: it has no heading, and the split
  produces no chapter, since the last flush is guarded by a non-empty buffer.
\<close>

theorem only_text_counterexample:
  "filter is_heading only_text = []
   \<and> chapters (split (new_book sample_config) only_text) = []
   \<and> traversal_root only_text_soup = Some (plain_tag (py ''article'') only_text)
   \<and> map_sum id toc (main sample_config only_text_soup) = Inr []"
proof -
  have r: "traversal_root only_text_soup = Some (plain_tag (py ''article'') only_text)"
    by (simp add: traversal_root_def find_tag_def only_text_soup_def descendants_document
        descendants_plain_tag plain_tag_simps Let_def)
  have c: "chapters (split (new_book sample_config) only_text) = []"
    by (simp add: only_text_def is_heading_def has_name_def split_def add_last_chapter_def
        loop_body_def init_vars_def)
  have h: "filter is_heading only_text = []"
    by (simp add: only_text_def is_heading_def)
  from r c h show ?thesis
    by (simp add: main_book [OF r] plain_tag_simps)
qed

subsection \<open>C4: the traversal root\<close>

text \<open>
  C4. When some node of the document is an \<open>article\<close> tag, the traversal root is the first
  such node in document order, whatever it contains; when none is, the traversal root is
  the document's body. The chapters of the book are those of the split of the root's
  direct children.
\<close>

theorem traversal_root_spec:
  "((\<exists>el\<in>set (descendants soup). name el = Some (py ''article'')) \<longrightarrow>
      (\<exists>pre a post. descendants soup = pre @ a # post \<and> name a = Some (py ''article'')
         \<and> (\<forall>el\<in>set pre. name el \<noteq> Some (py ''article'')) \<and> traversal_root soup = Some a))
   \<and> ((\<forall>el\<in>set (descendants soup). name el \<noteq> Some (py ''article'')) \<longrightarrow>
      traversal_root soup = body soup)
   \<and> (\<forall>root. traversal_root soup = Some root \<longrightarrow>
        map_sum id toc (main cfg soup) = Inr (chapters (split (new_book cfg) (children root))))"
proof (intro conjI impI allI)
  assume "\<exists>el\<in>set (descendants soup). name el = Some (py ''article'')"
  from find_first [of "descendants soup" "\<lambda>el. name el = Some (py ''article'')", OF this]
  obtain pre a post where
    *: "descendants soup = pre @ a # post" "name a = Some (py ''article'')"
       "\<forall>el\<in>set pre. name el \<noteq> Some (py ''article'')" "find_tag (py ''article'') soup = Some a"
    unfolding find_tag_def by blast
  from *(4) have "traversal_root soup = Some a"
    by (simp add: traversal_root_def Let_def)
  with * show "\<exists>pre a post. descendants soup = pre @ a # post \<and> name a = Some (py ''article'')
         \<and> (\<forall>el\<in>set pre. name el \<noteq> Some (py ''article'')) \<and> traversal_root soup = Some a"
    by blast
next
  assume "\<forall>el\<in>set (descendants soup). name el \<noteq> Some (py ''article'')"
  then have "find_tag (py ''article'') soup = None"
    by (simp add: find_tag_def find_None_iff)
  then show "traversal_root soup = body soup"
    by (simp add: traversal_root_def Let_def)
next
  fix root
  assume "traversal_root soup = Some root"
  then show "map_sum id toc (main cfg soup) = Inr (chapters (split (new_book cfg) (children root)))"
    by (simp add: main_book)
qed

text \<open>
  The theorem on a document whose article is empty and follows a paragraph (the root is
  the empty article, not the body), and on a document without an article.
\<close>

theorem traversal_root_spec_witness:
  "traversal_root empty_article_soup = Some (plain_tag (py ''article'') [])
   \<and> children (plain_tag (py ''article'') []) = []
   \<and> body empty_article_soup \<noteq> Some (plain_tag (py ''article'') [])
   \<and> traversal_root (document [plain_tag (py ''html'') [plain_tag (py ''body'') only_text]]) =
       Some (plain_tag (py ''body'') only_text)"
proof -
  have d: "descendants empty_article_soup =
      [plain_tag (py ''html'') [plain_tag (py ''body'')
         [plain_tag (py ''p'') [NavigableString (py ''intro'')], plain_tag (py ''article'') []]],
       plain_tag (py ''body'') [plain_tag (py ''p'') [NavigableString (py ''intro'')], plain_tag (py ''article'') []],
       plain_tag (py ''p'') [NavigableString (py ''intro'')], NavigableString (py ''intro''),
       plain_tag (py ''article'') []]"
    by (simp add: empty_article_soup_def descendants_document descendants_plain_tag)
  have ex: "\<exists>el\<in>set (descendants empty_article_soup). name el = Some (py ''article'')"
    by (simp add: d plain_tag_simps)
  have d2: "descendants (document [plain_tag (py ''html'') [plain_tag (py ''body'') only_text]]) =
      [plain_tag (py ''html'') [plain_tag (py ''body'') only_text], plain_tag (py ''body'') only_text,
       NavigableString (py ''just text'')]"
    by (simp add: descendants_document descendants_plain_tag only_text_def)
  have no: "\<forall>el\<in>set (descendants (document [plain_tag (py ''html'') [plain_tag (py ''body'') only_text]])).
      name el \<noteq> Some (py ''article'')"
    by (simp add: d2 plain_tag_simps)
  have b2: "body (document [plain_tag (py ''html'') [plain_tag (py ''body'') only_text]]) =
      Some (plain_tag (py ''body'') only_text)"
    by (simp add: body_def find_tag_def d2 plain_tag_simps)
  have b1: "body empty_article_soup \<noteq> Some (plain_tag (py ''article'') [])"
    by (simp add: body_def find_tag_def d plain_tag_simps) (simp add: plain_tag_def)
  from traversal_root_spec [of empty_article_soup] ex
  obtain pre a post where
    *: "descendants empty_article_soup = pre @ a # post" "name a = Some (py ''article'')"
       "traversal_root empty_article_soup = Some a"
    by blast
  from *(1) have "a \<in> set (descendants empty_article_soup)" by simp
  with *(2) have "a = plain_tag (py ''article'') []"
    by (auto simp: d plain_tag_simps)
  with *(3) have r1: "traversal_root empty_article_soup = Some (plain_tag (py ''article'') [])"
    by simp
  have r2: "traversal_root (document [plain_tag (py ''html'') [plain_tag (py ''body'') only_text]]) =
       Some (plain_tag (py ''body'') only_text)"
    using traversal_root_spec [of "document [plain_tag (py ''html'') [plain_tag (py ''body'') only_text]]"]
      no b2
    by simp
  from r1 r2 b1 show ?thesis by (simp add: plain_tag_simps)
qed

subsection \<open>C5: the sample document\<close>

text \<open>
  C5. On the sample document \<open>main\<close> returns a book with exactly two chapters, titled \<open>A\<close>
  and \<open>B\<close>: the first is made from the serialised \<open>h1\<close> heading followed by \<open><p>x</p>\<close>,
  the second from the serialised \<open>h2\<close> heading followed by \<open><p>y</p>\<close>.
\<close>

theorem sample_document_chapters:
  "map_sum id toc (main cfg sample_soup) =
     Inr [make_chapter (py ''A'') [py ''<h1>A</h1>'', py ''<p>x</p>''] 1,
          make_chapter (py ''B'') [py ''<h2>B</h2>'', py ''<p>y</p>''] 2]
   \<and> map_sum id (\<lambda>b. map title (toc b)) (main cfg sample_soup) = Inr [py ''A'', py ''B'']
   \<and> map_sum id (\<lambda>b. map file_name (toc b)) (main cfg sample_soup) =
       Inr [py ''chap_1.xhtml'', py ''chap_2.xhtml'']
   \<and> map_sum id (\<lambda>b. map content (toc b)) (main cfg sample_soup) =
       Inr [py ''['<h1>A</h1>', '<p>x</p>']'', py ''['<h2>B</h2>', '<p>y</p>']'']"
  by (simp add: main_book [OF sample_root] plain_tag_simps split_chapters sample_calls
      chapter_of_call_def make_chapter_def sample_content str_int_1_2)

subsection \<open>C6: the number of chapters\<close>

text \<open>
  C6. When every heading among the children is followed by a tagged sibling before the
  next heading, the number of chapters is the number \<open>N\<close> of headings, plus one exactly
  when a tagged child stands before the first heading (with no heading at all, before the
  end). The count holds without the hypothesis as well, by \<open>calls_length\<close>.
\<close>

theorem chapter_count_spec:
  assumes "headings_followed els"
  shows "length (chapters (split b els)) =
           length (filter is_heading els) +
           (if filter has_name (takeWhile (\<lambda>e. \<not> is_heading e) els) \<noteq> [] then 1 else 0)"
  by (simp add: split_chapters calls_length)

text \<open>The theorem on the sample's children (two headings, two chapters) and on
  \<open><p>x</p> and <p>y</p>\<close> (no heading, one chapter).\<close>

theorem chapter_count_spec_witness:
  "headings_followed sample_children
   \<and> length (chapters (split (new_book sample_config) sample_children)) = 2
   \<and> length (filter is_heading sample_children) = 2
   \<and> headings_followed no_headings
   \<and> length (chapters (split (new_book sample_config) no_headings)) = 1
   \<and> length (filter is_heading no_headings) = 0"
proof -
  have n: "headings_followed no_headings"
    by (simp add: no_headings_def is_heading_def has_name_def plain_tag_simps)
  show ?thesis
    using chapter_count_spec [OF sample_followed, of "new_book sample_config"]
      chapter_count_spec [OF n, of "new_book sample_config"] sample_followed n
    by (simp add: sample_children_def no_headings_def is_heading_def has_name_def plain_tag_simps)
qed

subsection \<open>C7: bare text nodes\<close>

text \<open>
  C7. Removing the children without a tag name changes nothing in the result of the split,
  neither the chapters nor their boundaries; and the bodies of the emitted chapters, put
  end to end, are the serialised forms of the tagged children, so no node without a tag
  name is in any of them.
\<close>

theorem text_nodes_dropped:
  "split b (filter (\<lambda>el. name el \<noteq> None) els) = split b els
   \<and> chapters (split b els) =
       map chapter_of_call (make_chapter_calls els (py ''Introduction'') [] 1)
   \<and> concat (map (\<lambda>c. fst (snd c)) (make_chapter_calls els (py ''Introduction'') [] 1)) =
       map str (filter has_name els)
   \<and> filter has_name (filter (\<lambda>el. name el = None) els) = []"
proof -
  have "filter has_name (filter (\<lambda>el. name el = None) els) = []"
    by (induction els) (simp_all add: has_name_def)
  moreover have "split b (filter (\<lambda>el. name el \<noteq> None) els) = split b els"
    by (simp only: split_def for_children_filter)
  ultimately show ?thesis
    by (simp only: split_chapters calls_bodies append_Nil simp_thms)
qed

subsection \<open>C8: the order of the chapters\<close>

text \<open>
  C8. The book's table of contents is the sequence of the emitted chapters, the book's
  items start with the same chapters in the same order, and the bodies of the chapters in
  this order, put end to end, are the tagged children of the traversal root in document
  order, with the ordinals \<open>1, 2, ...\<close> along the sequence.
\<close>

theorem book_order:
  assumes "traversal_root soup = Some article"
  shows "\<exists>bk. main cfg soup = Inr bk
     \<and> toc bk = map chapter_of_call (make_chapter_calls (children article) (py ''Introduction'') [] 1)
     \<and> items bk = map Html (toc bk) @ [EpubNcx, EpubNav, nav_css]
     \<and> concat (map (\<lambda>c. fst (snd c)) (make_chapter_calls (children article) (py ''Introduction'') [] 1)) =
         map str (filter has_name (children article))
     \<and> map (\<lambda>c. snd (snd c)) (make_chapter_calls (children article) (py ''Introduction'') [] 1) =
         [1..int (length (toc bk))]"
  using calls_ordinals [of "children article" "(py ''Introduction'')" "[]" 1]
  by (simp add: main_book [OF assms] split_chapters calls_bodies)

text \<open>The theorem on the sample document.\<close>

theorem book_order_witness:
  "\<exists>bk. main sample_config sample_soup = Inr bk
     \<and> map title (toc bk) = [py ''A'', py ''B'']
     \<and> items bk = map Html (toc bk) @ [EpubNcx, EpubNav, nav_css]"
proof -
  from book_order [OF sample_root, of sample_config] obtain bk where
    *: "main sample_config sample_soup = Inr bk"
       "toc bk = map chapter_of_call (make_chapter_calls (children (plain_tag (py ''article'') sample_children)) (py ''Introduction'') [] 1)"
       "items bk = map Html (toc bk) @ [EpubNcx, EpubNav, nav_css]"
    by blast
  from *(2) have "map title (toc bk) = [py ''A'', py ''B'']"
    by (simp add: plain_tag_simps sample_calls chapter_of_call_def make_chapter_def)
  with * show ?thesis by simp
qed

subsection \<open>C9: validating the path\<close>

text \<open>
  C9, as amended. The validation raises the not-found error for a path on which the
  existence check answers no (\<open>stat\<close> fails with \<open>ENOENT\<close>, \<open>ENOTDIR\<close>, \<open>EBADF\<close> or \<open>ELOOP\<close>, or
  rejects the text of the path); it raises the error of the operating system itself when
  \<open>stat\<close> fails with any other error number; it raises the extension error for a path that
  is found and whose name does not end with a dot and the letters \<open>html\<close>, each in either
  case, after at least one more character; and it returns a path exactly when \<open>stat\<close>
  succeeds on the path and its name ends so, and then the path itself. The suffix that the
  extension error reports is the name from its last dot on when that dot is neither the
  first nor the last character of the name, and empty otherwise. When the validation
  raises for a value of the command line, the script ends with an error, the same whatever
  loading and parsing the file would do: no HTML is processed.
\<close>

theorem validate_html_file_spec:
  "(os_stat (str_path path) = Stat_ok \<and> is_html_name (path_name path) \<longrightarrow>
      validate_html_file os_stat path = Inr path)
   \<and> (os_stat (str_path path) = Stat_ok \<and> \<not> is_html_name (path_name path) \<longrightarrow>
      validate_html_file os_stat path =
        Inl (ValueError (py ''File must have an .html extension, got: '' @ suffix path)))
   \<and> (os_stat (str_path path) = Stat_ValueError
        \<or> (\<exists>e. os_stat (str_path path) = Stat_OSError e \<and> ignore_error e) \<longrightarrow>
      validate_html_file os_stat path =
        Inl (FileNotFoundError (py ''File not found: '' @ str_path path)))
   \<and> (\<forall>e. os_stat (str_path path) = Stat_OSError e \<and> \<not> ignore_error e \<longrightarrow>
      validate_html_file os_stat path = Inl (OSError e))
   \<and> (validate_html_file os_stat path = Inr q \<longleftrightarrow>
        q = path \<and> os_stat (str_path path) = Stat_ok \<and> is_html_name (path_name path))
   \<and> (\<forall>stem ext. path_name path = stem @ 46 # ext \<and> 46 \<notin> set ext \<longrightarrow>
        suffix path = (if stem \<noteq> [] \<and> ext \<noteq> [] then 46 # ext else []))
   \<and> (46 \<notin> set (path_name path) \<longrightarrow> suffix path = [])
   \<and> ((\<exists>s\<in>set (html_path_values cl). \<exists>e. validate_html_file os_stat (to_Path s) = Inl e) \<longrightarrow>
        (\<exists>e. script environ os_stat load cl = Inl e)
        \<and> script environ os_stat load' cl = script environ os_stat load cl)"
proof (intro conjI impI allI)
  assume "\<exists>s\<in>set (html_path_values cl). \<exists>e. validate_html_file os_stat (to_Path s) = Inl e"
  from convert_values_error [OF this, of None]
  obtain e where "parse_args os_stat cl = Inl e"
    by (auto simp: parse_args_def)
  from script_parse_error [OF this]
  show "\<exists>e. script environ os_stat load cl = Inl e"
    and "script environ os_stat load' cl = script environ os_stat load cl"
    by blast+
qed (auto simp: validate_cases suffix_of_name suffix_no_dot split: stat_result.splits)

text \<open>
  The theorem on the sample file system: a path that is returned, three paths with the
  extension error (\<open>.htm\<close>, a name that is only \<open>.html\<close>, a name without dot below a
  directory \<open>docs.html\<close>), two paths with the not-found error, a path with the error of the
  operating system, and a command line whose second value fails.
\<close>

theorem validate_html_file_spec_witness:
  "validate_html_file sample_stat (to_Path (py ''./docs/Book.HTML'')) =
     Inr \<lparr>path_root = [], path_parts = [py ''docs'', py ''Book.HTML'']\<rparr>
   \<and> validate_html_file sample_stat (to_Path (py ''docs//./book.htm/'')) =
     Inl (ValueError (py ''File must have an .html extension, got: .htm''))
   \<and> validate_html_file sample_stat (to_Path (py ''docs/.html'')) =
     Inl (ValueError (py ''File must have an .html extension, got: ''))
   \<and> validate_html_file sample_stat (to_Path (py ''docs.html/readme'')) =
     Inl (ValueError (py ''File must have an .html extension, got: ''))
   \<and> validate_html_file sample_stat (to_Path (py ''docs/missing.html'')) =
     Inl (FileNotFoundError (py ''File not found: docs/missing.html''))
   \<and> validate_html_file sample_stat (to_Path (py ''docs/book.htm/x.html'')) =
     Inl (FileNotFoundError (py ''File not found: docs/book.htm/x.html''))
   \<and> validate_html_file sample_stat (to_Path (py ''private/book.html'')) = Inl (OSError EACCES)
   \<and> script sample_environ sample_stat (\<lambda>p. Inr sample_soup)
        \<lparr>html_path_values = [py ''docs/Book.HTML'', py ''docs/book.htm''], parser_exit = None\<rparr> =
       script sample_environ sample_stat (\<lambda>p. Inl (OSError EACCES))
        \<lparr>html_path_values = [py ''docs/Book.HTML'', py ''docs/book.htm''], parser_exit = None\<rparr>"
proof -
  let ?ok = "\<lparr>path_root = [], path_parts = [py ''docs'', py ''Book.HTML'']\<rparr>"
  let ?htm = "\<lparr>path_root = [], path_parts = [py ''docs'', py ''book.htm'']\<rparr>"
  let ?hid = "\<lparr>path_root = [], path_parts = [py ''docs'', py ''.html'']\<rparr>"
  let ?dir = "\<lparr>path_root = [], path_parts = [py ''docs.html'', py ''readme'']\<rparr>"
  let ?mis = "\<lparr>path_root = [], path_parts = [py ''docs'', py ''missing.html'']\<rparr>"
  let ?sub = "\<lparr>path_root = [], path_parts = [py ''docs'', py ''book.htm'', py ''x.html'']\<rparr>"
  let ?prv = "\<lparr>path_root = [], path_parts = [py ''private'', py ''book.html'']\<rparr>"
  let ?cl = "\<lparr>html_path_values = [py ''docs/Book.HTML'', py ''docs/book.htm''], parser_exit = None\<rparr>"
  have 1: "validate_html_file sample_stat ?ok = Inr ?ok"
    using validate_html_file_spec [of sample_stat ?ok]
    by (simp add: sample_str_path sample_stat_values path_name_def sample_names)
  have n2: "path_name ?htm = py ''book'' @ 46 # py ''htm'' \<and> 46 \<notin> set (py ''htm'')"
    by (simp add: path_name_def py_def)
  note spec2 = validate_html_file_spec [of sample_stat ?htm]
  from spec2 [THEN conjunct2, THEN conjunct2, THEN conjunct2, THEN conjunct2, THEN conjunct2,
      THEN conjunct1, rule_format, OF n2]
  have s2: "suffix ?htm = py ''.htm''" by (simp add: py_def)
  have c2: "sample_stat (str_path ?htm) = Stat_ok \<and> \<not> is_html_name (path_name ?htm)"
    by (simp add: sample_str_path sample_stat_values path_name_def sample_names)
  from spec2 [THEN conjunct2, THEN conjunct1, rule_format, OF c2]
  have 2: "validate_html_file sample_stat ?htm =
      Inl (ValueError (py ''File must have an .html extension, got: .htm''))"
    by (simp add: s2)
  have n3: "path_name ?hid = [] @ 46 # py ''html'' \<and> 46 \<notin> set (py ''html'')"
    by (simp add: path_name_def py_def)
  note spec3 = validate_html_file_spec [of sample_stat ?hid]
  from spec3 [THEN conjunct2, THEN conjunct2, THEN conjunct2, THEN conjunct2, THEN conjunct2,
      THEN conjunct1, rule_format, OF n3]
  have s3: "suffix ?hid = []" by simp
  have c3: "sample_stat (str_path ?hid) = Stat_ok \<and> \<not> is_html_name (path_name ?hid)"
    by (simp add: sample_str_path sample_stat_values path_name_def sample_names)
  from spec3 [THEN conjunct2, THEN conjunct1, rule_format, OF c3]
  have 3: "validate_html_file sample_stat ?hid =
      Inl (ValueError (py ''File must have an .html extension, got: ''))"
    by (simp add: s3)
  have n4: "46 \<notin> set (path_name ?dir)" by (simp add: path_name_def py_def)
  note spec4 = validate_html_file_spec [of sample_stat ?dir]
  from spec4 [THEN conjunct2, THEN conjunct2, THEN conjunct2, THEN conjunct2, THEN conjunct2,
      THEN conjunct2, THEN conjunct1, rule_format, OF n4]
  have s4: "suffix ?dir = []" .
  have c4: "sample_stat (str_path ?dir) = Stat_ok \<and> \<not> is_html_name (path_name ?dir)"
    by (simp add: sample_str_path sample_stat_values path_name_def sample_names)
  from spec4 [THEN conjunct2, THEN conjunct1, rule_format, OF c4]
  have 4: "validate_html_file sample_stat ?dir =
      Inl (ValueError (py ''File must have an .html extension, got: ''))"
    by (simp add: s4)
  have 5: "validate_html_file sample_stat ?mis =
      Inl (FileNotFoundError (py ''File not found: docs/missing.html''))"
    using validate_html_file_spec [of sample_stat ?mis]
    by (simp add: sample_str_path sample_stat_values ignore_error_def)
  have 6: "validate_html_file sample_stat ?sub =
      Inl (FileNotFoundError (py ''File not found: docs/book.htm/x.html''))"
    using validate_html_file_spec [of sample_stat ?sub]
    by (simp add: sample_str_path sample_stat_values ignore_error_def)
  have 7: "validate_html_file sample_stat ?prv = Inl (OSError EACCES)"
    using validate_html_file_spec [of sample_stat ?prv]
    by (simp add: sample_str_path sample_stat_values ignore_error_def errno_defs)
  have "\<exists>s\<in>set (html_path_values ?cl). \<exists>e. validate_html_file sample_stat (to_Path s) = Inl e"
    using 2 by (simp add: sample_to_Path)
  with validate_html_file_spec [of sample_stat ?ok ?ok ?cl sample_environ "\<lambda>p. Inl (OSError EACCES)"
      "\<lambda>p. Inr sample_soup"]
  have 8: "script sample_environ sample_stat (\<lambda>p. Inr sample_soup) ?cl =
      script sample_environ sample_stat (\<lambda>p. Inl (OSError EACCES)) ?cl"
    by blast
  from 1 2 3 4 5 6 7 8 show ?thesis
    by (simp only: sample_to_Path simp_thms)
qed

text \<open>
  C9 as stated fails on the sample file system. A name of 256 characters belongs to no
  file, \<open>stat\<close> fails on it with \<open>ENAMETOOLONG\<close>, and the validation raises that error, not
  the not-found error. The file \<open>private/book.html\<close> is there and has the extension, but its
  directory may not be searched: \<open>stat\<close> fails with \<open>EACCES\<close> and the validation raises that
  error instead of returning the path.
\<close>

theorem long_name_counterexample:
  "sample_stat (str_path (to_Path long_name)) \<noteq> Stat_ok
   \<and> validate_html_file sample_stat (to_Path long_name) = Inl (OSError ENAMETOOLONG)
   \<and> validate_html_file sample_stat (to_Path long_name) \<noteq>
       Inl (FileNotFoundError (py ''File not found: '' @ str_path (to_Path long_name)))
   \<and> is_html_name (path_name (to_Path (py ''private/book.html'')))
   \<and> validate_html_file sample_stat (to_Path (py ''private/book.html'')) = Inl (OSError EACCES)"
proof -
  have "long_name \<noteq> []" by (simp add: long_name_def)
  then have s: "str_path (to_Path long_name) = long_name"
    by (simp add: long_name_path str_path_def)
  have v: "validate_html_file sample_stat (to_Path long_name) = Inl (OSError ENAMETOOLONG)"
    by (simp add: validate_cases s long_name_stat ignore_error_def errno_defs)
  have p: "validate_html_file sample_stat (to_Path (py ''private/book.html'')) = Inl (OSError EACCES)"
    by (simp add: validate_cases sample_to_Path sample_str_path sample_stat_values
        ignore_error_def errno_defs)
  have "path_name (to_Path (py ''private/book.html'')) = py ''book.html''"
    by (simp add: sample_to_Path path_name_def)
  moreover have "is_html_name (py ''book.html'')"
    by (simp add: is_html_name_def same_letter_def py_def)
  ultimately have h: "is_html_name (path_name (to_Path (py ''private/book.html'')))"
    by simp
  from s v p h show ?thesis by (simp add: long_name_stat)
qed

subsection \<open>C10: the stored content\<close>

text \<open>
  C10. Every emitted chapter is made by \<open>make_chapter\<close> from a buffer, and its content is
  the text of the Python list: an opening bracket, the \<open>repr\<close> of each element separated by
  a comma and a space, and a closing bracket. It is longer than the buffered strings put
  end to end, and so never equal to them, and it holds no control character and no
  character that is not printable. The samples show the quotes of an element (single
  quotes, double quotes for an element with an apostrophe and no double quote, an escaped
  apostrophe for an element with both), the escapes of newline, tab, carriage return,
  backslash and of the other controls, and the characters beyond ASCII: copied when
  printable, escaped with two, four or eight hex digits when not.
\<close>

theorem chapter_content_is_list_repr:
  "chapters (split b els) =
     map chapter_of_call (make_chapter_calls els (py ''Introduction'') [] 1)
   \<and> content (chapter_of_call (ttl, buf, n)) = py ''['' @ join (py '', '') (map repr buf) @ py '']''
   \<and> content (chapter_of_call (ttl, buf, n)) \<noteq> concat buf
   \<and> length (concat buf) < length (content (chapter_of_call (ttl, buf, n)))
   \<and> list_all visible (content (chapter_of_call (ttl, buf, n)))
   \<and> content (make_chapter ttl [py ''<h1>A</h1>'', py ''<p>x</p>''] n) =
       py ''['' @ [39] @ py ''<h1>A</h1>'' @ [39] @ py '', '' @ [39] @ py ''<p>x</p>'' @ [39] @ py '']''
   \<and> content (make_chapter ttl [py ''<p>it'' @ [39] @ py ''s</p>''] n) =
       py ''['' @ [34] @ py ''<p>it'' @ [39] @ py ''s</p>'' @ [34] @ py '']''
   \<and> content (make_chapter ttl [py ''<p class='' @ [34] @ py ''q'' @ [34] @ py ''>it'' @ [39] @ py ''s</p>''] n) =
       py ''['' @ [39] @ py ''<p class='' @ [34] @ py ''q'' @ [34] @ py ''>it'' @ [92, 39] @ py ''s</p>'' @ [39] @ py '']''
   \<and> content (make_chapter ttl [py ''<a href='' @ [34] @ py ''x'' @ [34] @ py ''>y</a>''] n) =
       py ''['' @ [39] @ py ''<a href='' @ [34] @ py ''x'' @ [34] @ py ''>y</a>'' @ [39] @ py '']''
   \<and> content (make_chapter ttl [py ''<p>a'' @ [10] @ py ''b'' @ [9] @ py ''c'' @ [13] @ py ''d</p>''] n) =
       py ''['' @ [39] @ py ''<p>a'' @ [92] @ py ''nb'' @ [92] @ py ''tc'' @ [92] @ py ''rd</p>'' @ [39] @ py '']''
   \<and> content (make_chapter ttl [py ''C:'' @ [92] @ py ''dir''] n) =
       py ''['' @ [39] @ py ''C:'' @ [92, 92] @ py ''dir'' @ [39] @ py '']''
   \<and> content (make_chapter ttl [[11, 127, 0]] n) =
       py ''['' @ [39, 92] @ py ''x0b'' @ [92] @ py ''x7f'' @ [92] @ py ''x00'' @ [39] @ py '']''
   \<and> content (make_chapter ttl [py ''caf'' @ [233] @ py '' '' @ [20013] @ py '' '' @ [128512]] n) =
       py ''['' @ [39] @ py ''caf'' @ [233] @ py '' '' @ [20013] @ py '' '' @ [128512, 39] @ py '']''
   \<and> content (make_chapter ttl [py ''a'' @ [160] @ py ''b'' @ [173] @ py ''c''] n) =
       py ''['' @ [39] @ py ''a'' @ [92] @ py ''xa0b'' @ [92] @ py ''xadc'' @ [39] @ py '']''
   \<and> content (make_chapter ttl [[8239, 8232, 8203]] n) =
       py ''['' @ [39, 92] @ py ''u202f'' @ [92] @ py ''u2028'' @ [92] @ py ''u200b'' @ [39] @ py '']''
   \<and> content (make_chapter ttl [[917505]] n) =
       py ''['' @ [39, 92] @ py ''U000e0001'' @ [39] @ py '']''"
proof -
  have c: "content (chapter_of_call (ttl, buf, n)) = str_list buf"
    by (simp add: chapter_of_call_def make_chapter_def)
  have m: "content (make_chapter ttl xs n) = str_list xs" for xs
    by (simp add: make_chapter_def)
  have l: "length (concat buf) < length (str_list buf)"
    by (rule length_str_list)
  then have ne: "str_list buf \<noteq> concat buf" by auto
  have s: "str_list buf = py ''['' @ join (py '', '') (map repr buf) @ py '']''"
    by (simp only: str_list_def)
  show ?thesis
    unfolding c m
    using l ne s str_list_visible [of buf] split_chapters [of b els]
    by (simp only: str_list_examples simp_thms)
qed

end
